theory Spec2Isabelle
  imports Main "HOL-Library.Word"
begin

unbundle bit_operations_syntax

section \<open>The USB audio class driver of usbd_audio.c\<close>

text \<open>
  A shallow embedding of the class callbacks of
  \<^verbatim>\<open>Middlewares/ST/STM32_USB_Device_Library/Class/AUDIO/Src/usbd_audio.c\<close>:
  the ring buffer written by \<^verbatim>\<open>USBD_AUDIO_DataOut\<close>, the explicit feedback computed by
  \<^verbatim>\<open>USBD_AUDIO_SOF\<close>, and the control requests of \<^verbatim>\<open>USBD_AUDIO_Setup\<close>.

  The file-scope globals (\<^verbatim>\<open>tx_flag\<close>, \<^verbatim>\<open>is_playing\<close>, \<^verbatim>\<open>all_ready\<close>, \<^verbatim>\<open>fnsof\<close>,
  \<^verbatim>\<open>fb_value\<close>, ...) and the handle behind \<^verbatim>\<open>pdev->pClassData\<close> are fields of one state
  record that every callback takes and returns. Calls into the USB core and into the DAC
  interface table are appended to a log, in program order. Values read from hardware
  registers are arguments of the callback that reads them.
\<close>

subsection \<open>Compile-time configuration\<close>

text \<open>
  The macros below are defined in usbd_audio.h and usbd_conf.h, which are not among the
  sources; they are parameters of the model. \<^verbatim>\<open>AUDIO_TOTAL_BUF_SIZE\<close> enters the
  arithmetic as an unsigned 32-bit value.
\<close>

record audio_conf =
  USBD_AUDIO_FREQ :: "32 word"
  AUDIO_OUT_PACKET :: "16 word"
  AUDIO_IN_PACKET :: "16 word"
  AUDIO_TOTAL_BUF_SIZE :: "32 word"
  AUDIO_DEFAULT_VOLUME :: "32 word"
  AUDIO_OUT_EP :: "8 word"
  AUDIO_IN_EP :: "8 word"
  USBD_MAX_NUM_INTERFACES :: "32 word"

text \<open>Request codes of the USB 2.0 and Audio Class 1.0 standards, as usbd_def.h and
  usbd_audio.h name them.\<close>

definition USB_REQ_TYPE_MASK :: "8 word" where "USB_REQ_TYPE_MASK = 0x60"
definition USB_REQ_TYPE_STANDARD :: "8 word" where "USB_REQ_TYPE_STANDARD = 0x00"
definition USB_REQ_TYPE_CLASS :: "8 word" where "USB_REQ_TYPE_CLASS = 0x20"
definition USB_REQ_GET_STATUS :: "8 word" where "USB_REQ_GET_STATUS = 0x00"
definition USB_REQ_CLEAR_FEATURE :: "8 word" where "USB_REQ_CLEAR_FEATURE = 0x01"
definition USB_REQ_GET_DESCRIPTOR :: "8 word" where "USB_REQ_GET_DESCRIPTOR = 0x06"
definition USB_REQ_GET_INTERFACE :: "8 word" where "USB_REQ_GET_INTERFACE = 0x0A"
definition USB_REQ_SET_INTERFACE :: "8 word" where "USB_REQ_SET_INTERFACE = 0x0B"
definition AUDIO_REQ_GET_CUR :: "8 word" where "AUDIO_REQ_GET_CUR = 0x81"
definition AUDIO_REQ_SET_CUR :: "8 word" where "AUDIO_REQ_SET_CUR = 0x01"
definition AUDIO_DESCRIPTOR_TYPE :: "16 word" where "AUDIO_DESCRIPTOR_TYPE = 0x21"
definition USB_AUDIO_DESC_SIZ :: "16 word" where "USB_AUDIO_DESC_SIZ = 0x09"
definition AUDIO_OUT_STREAMING_CTRL :: "8 word" where "AUDIO_OUT_STREAMING_CTRL = 0x02"

subsection \<open>Data\<close>

datatype USBD_StatusTypeDef = USBD_OK | USBD_BUSY | USBD_EMEM | USBD_FAIL

datatype USBD_DevState =
  USBD_STATE_DEFAULT | USBD_STATE_ADDRESSED | USBD_STATE_CONFIGURED | USBD_STATE_SUSPENDED

datatype AUDIO_OffsetTypeDef =
  AUDIO_OFFSET_NONE | AUDIO_OFFSET_HALF | AUDIO_OFFSET_FULL | AUDIO_OFFSET_UNKNOWN

datatype AUDIO_CMD = AUDIO_CMD_START | AUDIO_CMD_PLAY | AUDIO_CMD_STOP

record USBD_SetupReqTypedef =
  bmRequest :: "8 word"
  bRequest :: "8 word"
  wValue :: "16 word"
  wIndex :: "16 word"
  wLength :: "16 word"

text \<open>
  \<^verbatim>\<open>USBD_AUDIO_HandleTypeDef\<close>: the ring \<^verbatim>\<open>buffer\<close> of \<^verbatim>\<open>AUDIO_TOTAL_BUF_SIZE\<close> bytes, the
  offsets \<^verbatim>\<open>rd_ptr\<close> and \<^verbatim>\<open>wr_ptr\<close>, and the scratch of the control transfer
  (\<^verbatim>\<open>control.cmd\<close>, \<^verbatim>\<open>control.data[64]\<close>, \<^verbatim>\<open>control.len\<close>, \<^verbatim>\<open>control.unit\<close>). The type
  is declared in usbd_audio.h, which is not among the sources; the widths are those of the
  ST library's declaration: \<^verbatim>\<open>uint32_t alt_setting\<close>, \<^verbatim>\<open>uint8_t rd_enable\<close>,
  \<^verbatim>\<open>uint16_t rd_ptr, wr_ptr\<close>, \<^verbatim>\<open>uint8_t\<close> for the control fields. An array is the
  function from index to byte; every store into \<^verbatim>\<open>buffer\<close> checks the index against the
  array's size.
\<close>

record USBD_AUDIO_HandleTypeDef =
  alt_setting :: "32 word"
  buffer :: "nat \<Rightarrow> 8 word"
  offset :: AUDIO_OffsetTypeDef
  rd_enable :: "8 word"
  rd_ptr :: "16 word"
  wr_ptr :: "16 word"
  control_cmd :: "8 word"
  control_data :: "nat \<Rightarrow> 8 word"
  control_len :: "8 word"
  control_unit :: "8 word"

text \<open>Where a receive is armed: at an offset of the ring, or at the static \<^verbatim>\<open>tmpbuf\<close> of
  \<^verbatim>\<open>USBD_AUDIO_DataOut\<close>.\<close>

datatype rx_target = Ring nat | Staging

text \<open>What \<^verbatim>\<open>USBD_CtlSendData\<close> is given to send.\<close>

datatype ctl_source = Src_status_info | Src_CfgDesc nat | Src_alt_setting | Src_control_data

text \<open>The calls the driver makes: into the USB core (\<^verbatim>\<open>USBD_LL_*\<close>, \<^verbatim>\<open>USBD_Ctl*\<close>) and
  through the interface table \<^verbatim>\<open>USBD_AUDIO_ItfTypeDef\<close> registered in \<^verbatim>\<open>pdev->pUserData\<close>.\<close>

datatype call =
    LL_OpenEP "8 word" "16 word"
  | LL_CloseEP "8 word"
  | LL_FlushEP "8 word"
  | LL_PrepareReceive "8 word" rx_target "16 word"
  | LL_Transmit "8 word" "8 word list" "16 word"
  | CtlError
  | CtlSendData ctl_source "16 word"
  | CtlPrepareRx "16 word"
  | Itf_Init "32 word" "32 word" "32 word"
  | Itf_DeInit "32 word"
  | Itf_AudioCmd nat "32 word" AUDIO_CMD
  | Itf_MuteCtl "8 word"

record usbd =
  pClassData :: "USBD_AUDIO_HandleTypeDef option"
  dev_state :: USBD_DevState
  tx_flag :: "32 word"
  is_playing :: "32 word"
  all_ready :: "32 word"
  fnsof :: "32 word"
  fb_value :: "32 word"
  fb_raw :: "32 word"
  fb_data :: "8 word list"
  sof_count :: "32 word"
  calls :: "call list"

definition do_call :: "call \<Rightarrow> usbd \<Rightarrow> usbd" where
  "do_call c s = s\<lparr>calls := calls s @ [c]\<rparr>"

subsection \<open>Feedback constants\<close>

text \<open>\<^verbatim>\<open>AUDIO_FB_DEFAULT\<close>, the nominal feedback in 10.14 format shifted left by 8.
  \<^verbatim>\<open>fb_nom\<close> is initialised with it and never assigned again.\<close>

definition AUDIO_FB_DEFAULT :: "audio_conf \<Rightarrow> 32 word" where
  "AUDIO_FB_DEFAULT cfg =
     (if USBD_AUDIO_FREQ cfg = 96000 then push_bit 22 96
      else if USBD_AUDIO_FREQ cfg = 48000 then push_bit 22 48
      else if USBD_AUDIO_FREQ cfg = 44100 then push_bit 22 44 + push_bit 22 1 div 10
      else push_bit 22 48)"

definition AUDIO_FB_DELTA :: "32 word" where
  "AUDIO_FB_DELTA = push_bit 22 1"

definition fb_nom :: "audio_conf \<Rightarrow> 32 word" where
  "fb_nom cfg = AUDIO_FB_DEFAULT cfg"

text \<open>The three bytes of the feedback packet: bits 8 to 31 of the value, low byte first.\<close>

definition fb_bytes :: "32 word \<Rightarrow> 8 word list" where
  "fb_bytes v =
     [ucast (drop_bit 8 v AND 0xFF), ucast (drop_bit 16 v AND 0xFF), ucast (drop_bit 24 v AND 0xFF)]"

subsection \<open>USBD_AUDIO_Init and USBD_AUDIO_DeInit\<close>

text \<open>
  \<open>mem\<close> is what \<^verbatim>\<open>USBD_malloc\<close> returns (\<open>None\<close> for \<^verbatim>\<open>NULL\<close>, otherwise the block with
  whatever it holds), \<open>itf_ret\<close> what the interface's \<^verbatim>\<open>Init\<close> returns. The bookkeeping of
  the core's endpoint table (\<^verbatim>\<open>is_used\<close>, \<^verbatim>\<open>bInterval\<close>) is left out.
\<close>

definition USBD_AUDIO_Init ::
  "audio_conf \<Rightarrow> USBD_AUDIO_HandleTypeDef option \<Rightarrow> 8 word \<Rightarrow> usbd \<Rightarrow> USBD_StatusTypeDef \<times> usbd" where
  "USBD_AUDIO_Init cfg mem itf_ret s =
     (case mem of
        None \<Rightarrow> (USBD_EMEM, s\<lparr>pClassData := None\<rparr>)
      | Some haudio \<Rightarrow>
          let s1 = do_call (LL_OpenEP (AUDIO_OUT_EP cfg) (AUDIO_OUT_PACKET cfg)) s;
              s2 = do_call (LL_OpenEP (AUDIO_IN_EP cfg) (AUDIO_IN_PACKET cfg)) s1;
              s3 = do_call (LL_FlushEP (AUDIO_IN_EP cfg)) s2;
              h = haudio\<lparr>alt_setting := 0, offset := AUDIO_OFFSET_UNKNOWN,
                         wr_ptr := 0, rd_ptr := 0, rd_enable := 0\<rparr>;
              s4 = do_call (Itf_Init (USBD_AUDIO_FREQ cfg) (AUDIO_DEFAULT_VOLUME cfg) 0)
                     (s3\<lparr>tx_flag := 1, pClassData := Some h\<rparr>)
          in if itf_ret \<noteq> 0 then (USBD_FAIL, s4)
             else (USBD_OK,
                   do_call (LL_PrepareReceive (AUDIO_OUT_EP cfg) (Ring 0) (AUDIO_OUT_PACKET cfg)) s4))"

definition USBD_AUDIO_DeInit :: "audio_conf \<Rightarrow> usbd \<Rightarrow> USBD_StatusTypeDef \<times> usbd" where
  "USBD_AUDIO_DeInit cfg s =
     (let s1 = do_call (LL_FlushEP (AUDIO_OUT_EP cfg)) s;
          s2 = do_call (LL_FlushEP (AUDIO_IN_EP cfg)) s1;
          s3 = do_call (LL_CloseEP (AUDIO_OUT_EP cfg)) s2;
          s4 = (do_call (LL_CloseEP (AUDIO_IN_EP cfg)) s3)\<lparr>tx_flag := 0\<rparr>
      in if pClassData s4 \<noteq> None
         then (USBD_OK, (do_call (Itf_DeInit 0) s4)\<lparr>pClassData := None\<rparr>)
         else (USBD_OK, s4))"

subsection \<open>USBD_AUDIO_Setup\<close>

definition AUDIO_REQ_GetCurrent ::
  "USBD_SetupReqTypedef \<Rightarrow> USBD_AUDIO_HandleTypeDef \<Rightarrow> usbd \<Rightarrow> usbd" where
  "AUDIO_REQ_GetCurrent req haudio s =
     do_call (CtlSendData Src_control_data (wLength req))
       (s\<lparr>pClassData :=
            Some (haudio\<lparr>control_data := (\<lambda>i. if i < 64 then 0 else control_data haudio i)\<rparr>)\<rparr>)"

definition AUDIO_REQ_SetCurrent ::
  "USBD_SetupReqTypedef \<Rightarrow> USBD_AUDIO_HandleTypeDef \<Rightarrow> usbd \<Rightarrow> usbd" where
  "AUDIO_REQ_SetCurrent req haudio s =
     (if wLength req \<noteq> 0
      then (do_call (CtlPrepareRx (wLength req)) s)
             \<lparr>pClassData := Some (haudio\<lparr>control_cmd := AUDIO_REQ_SET_CUR,
                                          control_len := ucast (wLength req),
                                          control_unit := ucast (drop_bit 8 (wIndex req))\<rparr>)\<rparr>
      else s)"

text \<open>The statements both branches of \<^verbatim>\<open>USB_REQ_SET_INTERFACE\<close> share, from
  \<^verbatim>\<open>all_ready = 0U\<close> to the flush of the OUT endpoint.\<close>

definition set_interface_reset ::
  "audio_conf \<Rightarrow> USBD_AUDIO_HandleTypeDef \<Rightarrow> usbd \<Rightarrow> usbd" where
  "set_interface_reset cfg haudio s =
     do_call (LL_FlushEP (AUDIO_OUT_EP cfg))
       (do_call (LL_FlushEP (AUDIO_IN_EP cfg))
          (s\<lparr>all_ready := 0, tx_flag := 1, is_playing := 0,
             pClassData := Some (haudio\<lparr>offset := AUDIO_OFFSET_UNKNOWN, rd_enable := 0,
                                          rd_ptr := 0, wr_ptr := 0\<rparr>)\<rparr>))"

definition set_interface ::
  "audio_conf \<Rightarrow> USBD_SetupReqTypedef \<Rightarrow> USBD_AUDIO_HandleTypeDef \<Rightarrow> usbd
     \<Rightarrow> USBD_StatusTypeDef \<times> usbd" where
  "set_interface cfg req haudio s =
     (if dev_state s = USBD_STATE_CONFIGURED then
        if ucast (ucast (wValue req) :: 8 word) \<le> USBD_MAX_NUM_INTERFACES cfg then
          let h1 = haudio\<lparr>alt_setting := ucast (ucast (wValue req) :: 8 word)\<rparr>;
              s1 =
                (if alt_setting h1 = 0 then
                   do_call (Itf_DeInit 0)
                     (set_interface_reset cfg
                        (h1\<lparr>buffer := (\<lambda>i. if i < unat (AUDIO_TOTAL_BUF_SIZE cfg) then 0
                                              else buffer haudio i)\<rparr>) s)
                 else
                   (do_call (Itf_Init (USBD_AUDIO_FREQ cfg) (AUDIO_DEFAULT_VOLUME cfg) 0)
                      (set_interface_reset cfg h1 s))\<lparr>tx_flag := 0, all_ready := 1\<rparr>)
          in (USBD_OK, do_call (LL_FlushEP (AUDIO_IN_EP cfg)) s1)
        else (USBD_FAIL, do_call CtlError s)
      else (USBD_FAIL, do_call CtlError s))"

definition USBD_AUDIO_Setup ::
  "audio_conf \<Rightarrow> USBD_SetupReqTypedef \<Rightarrow> usbd \<Rightarrow> USBD_StatusTypeDef \<times> usbd" where
  "USBD_AUDIO_Setup cfg req s =
     (case pClassData s of
        None \<Rightarrow> (USBD_FAIL, s)
      | Some haudio \<Rightarrow>
          if bmRequest req AND USB_REQ_TYPE_MASK = USB_REQ_TYPE_CLASS then
            if bRequest req = AUDIO_REQ_GET_CUR then (USBD_OK, AUDIO_REQ_GetCurrent req haudio s)
            else if bRequest req = AUDIO_REQ_SET_CUR then (USBD_OK, AUDIO_REQ_SetCurrent req haudio s)
            else (USBD_FAIL, do_call CtlError s)
          else if bmRequest req AND USB_REQ_TYPE_MASK = USB_REQ_TYPE_STANDARD then
            if bRequest req = USB_REQ_GET_STATUS then
              if dev_state s = USBD_STATE_CONFIGURED
              then (USBD_OK, do_call (CtlSendData Src_status_info 2) s)
              else (USBD_FAIL, do_call CtlError s)
            else if bRequest req = USB_REQ_GET_DESCRIPTOR then
              if drop_bit 8 (wValue req) = AUDIO_DESCRIPTOR_TYPE
              then (USBD_OK,
                    do_call (CtlSendData (Src_CfgDesc 18) (min USB_AUDIO_DESC_SIZ (wLength req))) s)
              else (USBD_OK, s)
            else if bRequest req = USB_REQ_GET_INTERFACE then
              if dev_state s = USBD_STATE_CONFIGURED
              then (USBD_OK, do_call (CtlSendData Src_alt_setting 1) s)
              else (USBD_FAIL, do_call CtlError s)
            else if bRequest req = USB_REQ_SET_INTERFACE then set_interface cfg req haudio s
            else if bRequest req = USB_REQ_CLEAR_FEATURE then (USBD_OK, s)
            else (USBD_FAIL, do_call CtlError s)
          else (USBD_FAIL, do_call CtlError s))"

subsection \<open>USBD_AUDIO_DataIn and the EP0 callbacks\<close>

definition USBD_AUDIO_DataIn :: "audio_conf \<Rightarrow> 8 word \<Rightarrow> usbd \<Rightarrow> USBD_StatusTypeDef \<times> usbd" where
  "USBD_AUDIO_DataIn cfg epnum s =
     (if epnum = AUDIO_IN_EP cfg AND 0xf then (USBD_OK, s\<lparr>tx_flag := 0\<rparr>) else (USBD_OK, s))"

definition USBD_AUDIO_EP0_RxReady :: "usbd \<Rightarrow> USBD_StatusTypeDef \<times> usbd" where
  "USBD_AUDIO_EP0_RxReady s =
     (case pClassData s of
        None \<Rightarrow> (USBD_FAIL, s)
      | Some haudio \<Rightarrow>
          if control_cmd haudio = AUDIO_REQ_SET_CUR \<and> control_unit haudio = AUDIO_OUT_STREAMING_CTRL
          then (USBD_OK,
                (do_call (Itf_MuteCtl (control_data haudio 0)) s)
                  \<lparr>pClassData := Some (haudio\<lparr>control_cmd := 0, control_len := 0\<rparr>)\<rparr>)
          else (USBD_OK, s))"

definition USBD_AUDIO_EP0_TxReady :: "usbd \<Rightarrow> USBD_StatusTypeDef \<times> usbd" where
  "USBD_AUDIO_EP0_TxReady s = (USBD_OK, s)"

subsection \<open>USBD_AUDIO_SOF\<close>

text \<open>The remaining writable size in stereo frames, from the two offsets, in unsigned
  32-bit arithmetic. With \<^verbatim>\<open>wr_ptr\<close> inside the ring neither difference is negative, and
  signed evaluation after the integer promotions gives the same value.\<close>

definition audio_buf_writable_size :: "audio_conf \<Rightarrow> 16 word \<Rightarrow> 16 word \<Rightarrow> 32 word" where
  "audio_buf_writable_size cfg rd wr =
     (if rd < wr then (ucast rd + AUDIO_TOTAL_BUF_SIZE cfg - ucast wr) div 4
      else (ucast rd - ucast wr) div 4)"

text \<open>\<^verbatim>\<open>audio_buf_writable_dev_from_nom_size\<close>, an \<^verbatim>\<open>int32_t\<close> kept as its 32 bits.\<close>

definition audio_buf_writable_dev_from_nom_size :: "audio_conf \<Rightarrow> 32 word \<Rightarrow> 32 word" where
  "audio_buf_writable_dev_from_nom_size cfg writable =
     writable - AUDIO_TOTAL_BUF_SIZE cfg div (2 * 6)"

text \<open>\<^verbatim>\<open>(uint32_t)(pid_k >> 22)\<close>: the \<^verbatim>\<open>int32_t\<close> sum (computed on 32 bits, two's
  complement) is sign-extended to 64 bits, multiplied by \<^verbatim>\<open>fb_nom\<close> modulo \<open>2^64\<close>,
  shifted and truncated.\<close>

definition pid_feedback :: "audio_conf \<Rightarrow> 32 word \<Rightarrow> 32 word" where
  "pid_feedback cfg dev =
     (let tmp = (scast (push_bit 22 1 + dev * 256 :: 32 word) :: 64 word);
          pid_k = (ucast (fb_nom cfg) :: 64 word) * tmp
      in ucast (drop_bit 22 pid_k))"

text \<open>The body of \<^verbatim>\<open>if (sof_count == 1U)\<close>.\<close>

definition feedback_update :: "audio_conf \<Rightarrow> 32 word \<Rightarrow> usbd \<Rightarrow> usbd" where
  "feedback_update cfg writable s =
     (let v = pid_feedback cfg (audio_buf_writable_dev_from_nom_size cfg writable);
          s1 = s\<lparr>sof_count := 0, fb_value := v\<rparr>;
          s2 = (if fb_value s1 > fb_nom cfg + AUDIO_FB_DELTA
                then s1\<lparr>fb_raw := fb_nom cfg + AUDIO_FB_DELTA, fb_value := fb_nom cfg + AUDIO_FB_DELTA\<rparr>
                else if fb_value s1 < fb_nom cfg - AUDIO_FB_DELTA
                then s1\<lparr>fb_raw := fb_nom cfg - AUDIO_FB_DELTA, fb_value := fb_nom cfg - AUDIO_FB_DELTA\<rparr>
                else s1)
      in s2\<lparr>fb_data := fb_bytes (fb_value s2)\<rparr>)"

text \<open>The body of \<^verbatim>\<open>if (tx_flag == 0U)\<close>; \<open>fnsof_new\<close> is the frame number read from
  \<^verbatim>\<open>DSTS\<close>, that is \<^verbatim>\<open>(USBx_DEVICE->DSTS & USB_OTG_DSTS_FNSOF) >> 8\<close>.\<close>

definition feedback_submit :: "audio_conf \<Rightarrow> 32 word \<Rightarrow> usbd \<Rightarrow> usbd" where
  "feedback_submit cfg fnsof_new s =
     (if tx_flag s = 0 then
        if fnsof s AND 0x1 = fnsof_new AND 0x1
        then (do_call (LL_Transmit (AUDIO_IN_EP cfg) (fb_data s) 3) s)\<lparr>tx_flag := 1\<rparr>
        else s
      else s)"

text \<open>\<open>ndtr\<close> is the value of the \<^verbatim>\<open>NDTR\<close> register of the DMA stream. A \<^verbatim>\<open>NULL\<close> handle is
  dereferenced without a test: the result \<open>None\<close>.\<close>

definition USBD_AUDIO_SOF ::
  "audio_conf \<Rightarrow> 32 word \<Rightarrow> 32 word \<Rightarrow> usbd \<Rightarrow> (USBD_StatusTypeDef \<times> usbd) option" where
  "USBD_AUDIO_SOF cfg ndtr fnsof_new s =
     (case pClassData s of
        None \<Rightarrow> None
      | Some haudio \<Rightarrow>
          if rd_enable haudio \<ge> 1 \<and> all_ready s = 1 then
            let h1 = haudio\<lparr>rd_ptr := ucast (AUDIO_TOTAL_BUF_SIZE cfg - (ndtr AND 0xFFFF))\<rparr>;
                writable = audio_buf_writable_size cfg (rd_ptr h1) (wr_ptr h1);
                s1 = s\<lparr>pClassData := Some h1,
                       fb_value := AUDIO_FB_DEFAULT cfg,
                       fb_data := fb_bytes (AUDIO_FB_DEFAULT cfg),
                       sof_count := sof_count s + 1\<rparr>;
                s2 = (if sof_count s1 = 1 then feedback_update cfg writable s1 else s1)
            in Some (USBD_OK, feedback_submit cfg fnsof_new s2)
          else Some (USBD_OK, s))"

subsection \<open>The incomplete-transfer callbacks\<close>

definition USBD_AUDIO_IsoINIncomplete ::
  "audio_conf \<Rightarrow> 8 word \<Rightarrow> 32 word \<Rightarrow> usbd \<Rightarrow> USBD_StatusTypeDef \<times> usbd" where
  "USBD_AUDIO_IsoINIncomplete cfg epnum fnsof_new s =
     (let s1 = s\<lparr>fnsof := fnsof_new\<rparr>
      in if tx_flag s1 = 1
         then (USBD_OK, do_call (LL_FlushEP (AUDIO_IN_EP cfg)) (s1\<lparr>tx_flag := 0\<rparr>))
         else (USBD_OK, s1))"

definition USBD_AUDIO_IsoOutIncomplete ::
  "audio_conf \<Rightarrow> 8 word \<Rightarrow> usbd \<Rightarrow> (USBD_StatusTypeDef \<times> usbd) option" where
  "USBD_AUDIO_IsoOutIncomplete cfg epnum s =
     (case pClassData s of
        None \<Rightarrow> None
      | Some haudio \<Rightarrow>
          Some (USBD_OK,
                do_call (LL_PrepareReceive (AUDIO_OUT_EP cfg) (Ring (unat (wr_ptr haudio)))
                           (AUDIO_OUT_PACKET cfg))
                  (do_call (LL_FlushEP (AUDIO_OUT_EP cfg)) s)))"

subsection \<open>USBD_AUDIO_DataOut\<close>

text \<open>\<^verbatim>\<open>haudio->buffer[haudio->wr_ptr++] = b\<close>. A store beyond the array is \<open>None\<close>.\<close>

definition put_byte ::
  "audio_conf \<Rightarrow> 8 word \<Rightarrow> USBD_AUDIO_HandleTypeDef \<Rightarrow> USBD_AUDIO_HandleTypeDef option" where
  "put_byte cfg b h =
     (if unat (wr_ptr h) < unat (AUDIO_TOTAL_BUF_SIZE cfg)
      then Some (h\<lparr>buffer := (buffer h)(unat (wr_ptr h) := b), wr_ptr := wr_ptr h + 1\<rparr>)
      else None)"

text \<open>One pass of the copy loop: four bytes of \<^verbatim>\<open>tmpbuf\<close> from \<open>tmpbuf_ptr\<close> on, then the
  wrap of \<^verbatim>\<open>wr_ptr\<close>.\<close>

definition copy_sample ::
  "audio_conf \<Rightarrow> (nat \<Rightarrow> 8 word) \<Rightarrow> nat \<Rightarrow> USBD_AUDIO_HandleTypeDef
     \<Rightarrow> USBD_AUDIO_HandleTypeDef option" where
  "copy_sample cfg tmpbuf tmpbuf_ptr h =
     Option.bind (put_byte cfg (tmpbuf tmpbuf_ptr) h) (\<lambda>h1.
     Option.bind (put_byte cfg (tmpbuf (tmpbuf_ptr + 1)) h1) (\<lambda>h2.
     Option.bind (put_byte cfg (tmpbuf (tmpbuf_ptr + 2)) h2) (\<lambda>h3.
     Option.bind (put_byte cfg (tmpbuf (tmpbuf_ptr + 3)) h3) (\<lambda>h4.
       Some (if ucast (wr_ptr h4) \<ge> AUDIO_TOTAL_BUF_SIZE cfg then h4\<lparr>wr_ptr := 0\<rparr> else h4)))))"

text \<open>The loop \<^verbatim>\<open>for (i = 0; i < num_samples; i++)\<close>, by the number of passes left.\<close>

fun copy_samples ::
  "audio_conf \<Rightarrow> (nat \<Rightarrow> 8 word) \<Rightarrow> nat \<Rightarrow> nat \<Rightarrow> USBD_AUDIO_HandleTypeDef
     \<Rightarrow> USBD_AUDIO_HandleTypeDef option" where
  "copy_samples cfg tmpbuf 0 tmpbuf_ptr h = Some h"
| "copy_samples cfg tmpbuf (Suc n) tmpbuf_ptr h =
     (case copy_sample cfg tmpbuf tmpbuf_ptr h of
        None \<Rightarrow> None
      | Some h' \<Rightarrow> copy_samples cfg tmpbuf n (tmpbuf_ptr + 4) h')"

text \<open>The start of playback, once the ring is half full.\<close>

definition playback_start :: "audio_conf \<Rightarrow> USBD_AUDIO_HandleTypeDef \<Rightarrow> usbd \<Rightarrow> usbd" where
  "playback_start cfg h s =
     (if offset h = AUDIO_OFFSET_UNKNOWN \<and> is_playing s = 0 then
        if ucast (wr_ptr h) \<ge> AUDIO_TOTAL_BUF_SIZE cfg div 2 then
          let h1 = h\<lparr>offset := AUDIO_OFFSET_NONE\<rparr>;
              s1 = s\<lparr>is_playing := 1\<rparr>
          in if rd_enable h1 = 0
             then (do_call (Itf_AudioCmd 0 (AUDIO_TOTAL_BUF_SIZE cfg div 2) AUDIO_CMD_START) s1)
                    \<lparr>pClassData := Some (h1\<lparr>rd_enable := 1\<rparr>)\<rparr>
             else s1\<lparr>pClassData := Some h1\<rparr>
        else s\<lparr>pClassData := Some h\<rparr>
      else s\<lparr>pClassData := Some h\<rparr>)"

text \<open>
  \<open>rx_size\<close> is the received length as the handler holds it,
  \<^verbatim>\<open>PacketSize = (uint16_t)USBD_LL_GetRxDataSize(pdev, epnum)\<close>; \<open>tmpbuf\<close> is the memory
  from the static \<^verbatim>\<open>tmpbuf\<close> on, as the USB core has filled it.
\<close>

definition USBD_AUDIO_DataOut ::
  "audio_conf \<Rightarrow> 8 word \<Rightarrow> 16 word \<Rightarrow> (nat \<Rightarrow> 8 word) \<Rightarrow> usbd
     \<Rightarrow> (USBD_StatusTypeDef \<times> usbd) option" where
  "USBD_AUDIO_DataOut cfg epnum rx_size tmpbuf s =
     (case pClassData s of
        None \<Rightarrow> Some (USBD_FAIL, s)
      | Some haudio \<Rightarrow>
          if epnum = AUDIO_OUT_EP cfg \<and> all_ready s = 1 then
            let PacketSize = (if rx_size > AUDIO_OUT_PACKET cfg then 0 else rx_size);
                num_samples = (ucast PacketSize :: 32 word) div 4
            in case copy_samples cfg tmpbuf (unat num_samples) 0 haudio of
                 None \<Rightarrow> None
               | Some h \<Rightarrow>
                   Some (USBD_OK,
                         do_call (LL_PrepareReceive (AUDIO_OUT_EP cfg) Staging (AUDIO_OUT_PACKET cfg))
                           (playback_start cfg h s))
          else Some (USBD_OK, s))"

subsection \<open>Events\<close>

text \<open>The callbacks of the class table \<^verbatim>\<open>USBD_AUDIO\<close> with the values they read from their
  environment, and one step of the driver for each.\<close>

datatype event =
    Ev_Init "USBD_AUDIO_HandleTypeDef option" "8 word"
  | Ev_DeInit
  | Ev_Setup USBD_SetupReqTypedef
  | Ev_EP0_TxReady
  | Ev_EP0_RxReady
  | Ev_DataIn "8 word"
  | Ev_DataOut "8 word" "16 word" "nat \<Rightarrow> 8 word"
  | Ev_SOF "32 word" "32 word"
  | Ev_IsoINIncomplete "8 word" "32 word"
  | Ev_IsoOutIncomplete "8 word"

fun step :: "audio_conf \<Rightarrow> event \<Rightarrow> usbd \<Rightarrow> (USBD_StatusTypeDef \<times> usbd) option" where
  "step cfg (Ev_Init mem itf_ret) s = Some (USBD_AUDIO_Init cfg mem itf_ret s)"
| "step cfg Ev_DeInit s = Some (USBD_AUDIO_DeInit cfg s)"
| "step cfg (Ev_Setup req) s = Some (USBD_AUDIO_Setup cfg req s)"
| "step cfg Ev_EP0_TxReady s = Some (USBD_AUDIO_EP0_TxReady s)"
| "step cfg Ev_EP0_RxReady s = Some (USBD_AUDIO_EP0_RxReady s)"
| "step cfg (Ev_DataIn epnum) s = Some (USBD_AUDIO_DataIn cfg epnum s)"
| "step cfg (Ev_DataOut epnum rx_size tmpbuf) s = USBD_AUDIO_DataOut cfg epnum rx_size tmpbuf s"
| "step cfg (Ev_SOF ndtr fnsof_new) s = USBD_AUDIO_SOF cfg ndtr fnsof_new s"
| "step cfg (Ev_IsoINIncomplete epnum fnsof_new) s =
     Some (USBD_AUDIO_IsoINIncomplete cfg epnum fnsof_new s)"
| "step cfg (Ev_IsoOutIncomplete epnum) s = USBD_AUDIO_IsoOutIncomplete cfg epnum s"

text \<open>The states after each event of a sequence, in order; \<open>None\<close> when a step has no
  result.\<close>

fun run :: "audio_conf \<Rightarrow> event list \<Rightarrow> usbd \<Rightarrow> usbd list option" where
  "run cfg [] s = Some []"
| "run cfg (e # es) s =
     (case step cfg e s of
        None \<Rightarrow> None
      | Some (r, s') \<Rightarrow> (case run cfg es s' of None \<Rightarrow> None | Some ss \<Rightarrow> Some (s' # ss)))"

subsection \<open>Observations on runs\<close>

text \<open>The frame number captured by the last \<^verbatim>\<open>USBD_AUDIO_IsoINIncomplete\<close> of a sequence of
  events; \<open>f\<close> is the value of \<^verbatim>\<open>fnsof\<close> before the sequence.\<close>

fun last_fnsof :: "event list \<Rightarrow> 32 word \<Rightarrow> 32 word" where
  "last_fnsof [] f = f"
| "last_fnsof (Ev_IsoINIncomplete epnum fnsof_new # es) f = last_fnsof es fnsof_new"
| "last_fnsof (e # es) f = last_fnsof es f"

fun is_DataOut :: "event \<Rightarrow> bool" where
  "is_DataOut (Ev_DataOut epnum rx_size tmpbuf) = True"
| "is_DataOut e = False"

text \<open>A \<^verbatim>\<open>SET_INTERFACE\<close> request: a standard request with that code.\<close>

definition is_set_interface :: "USBD_SetupReqTypedef \<Rightarrow> bool" where
  "is_set_interface req \<longleftrightarrow>
     bmRequest req AND USB_REQ_TYPE_MASK = USB_REQ_TYPE_STANDARD \<and>
     bRequest req = USB_REQ_SET_INTERFACE"

text \<open>The alternate setting a request asks for, \<^verbatim>\<open>(uint8_t)(req->wValue)\<close>.\<close>

definition req_alt :: "USBD_SetupReqTypedef \<Rightarrow> 8 word" where
  "req_alt req = ucast (wValue req)"

text \<open>The events that reset the stream: \<^verbatim>\<open>Init\<close>, \<^verbatim>\<open>DeInit\<close> and \<^verbatim>\<open>SET_INTERFACE\<close>.\<close>

fun is_reset :: "event \<Rightarrow> bool" where
  "is_reset (Ev_Init mem itf_ret) = True"
| "is_reset Ev_DeInit = True"
| "is_reset (Ev_Setup req) = is_set_interface req"
| "is_reset e = False"

text \<open>The calls made between two states of a run.\<close>

definition new_calls :: "usbd \<Rightarrow> usbd \<Rightarrow> call list" where
  "new_calls s s' = drop (length (calls s)) (calls s')"

fun is_AudioCmd :: "call \<Rightarrow> bool" where
  "is_AudioCmd (Itf_AudioCmd buf n cmd) = True"
| "is_AudioCmd c = False"

subsection \<open>A concrete configuration\<close>

text \<open>48 kHz with a ring of 1920 bytes, and states of the driver in it: before
  \<^verbatim>\<open>Init\<close>, configured and idle, and streaming with the ring half full.\<close>

definition conf48 :: audio_conf where
  "conf48 = \<lparr>USBD_AUDIO_FREQ = 48000, AUDIO_OUT_PACKET = 192, AUDIO_IN_PACKET = 3,
             AUDIO_TOTAL_BUF_SIZE = 1920, AUDIO_DEFAULT_VOLUME = 70,
             AUDIO_OUT_EP = 0x01, AUDIO_IN_EP = 0x81, USBD_MAX_NUM_INTERFACES = 1\<rparr>"

definition idle_handle :: USBD_AUDIO_HandleTypeDef where
  "idle_handle = \<lparr>alt_setting = 0, buffer = (\<lambda>i. 0), offset = AUDIO_OFFSET_UNKNOWN,
                   rd_enable = 0, rd_ptr = 0, wr_ptr = 0, control_cmd = 0,
                   control_data = (\<lambda>i. 0), control_len = 0, control_unit = 0\<rparr>"

definition boot_state :: usbd where
  "boot_state = \<lparr>pClassData = None, dev_state = USBD_STATE_ADDRESSED, tx_flag = 1,
                  is_playing = 0, all_ready = 0, fnsof = 0,
                  fb_value = AUDIO_FB_DEFAULT conf48, fb_raw = AUDIO_FB_DEFAULT conf48,
                  fb_data = [0x00, 0x00, 0x0C], sof_count = 0, calls = []\<rparr>"

definition idle_state :: usbd where
  "idle_state = boot_state\<lparr>pClassData := Some idle_handle, dev_state := USBD_STATE_CONFIGURED\<rparr>"

definition streaming_state :: usbd where
  "streaming_state =
     idle_state\<lparr>pClassData := Some (idle_handle\<lparr>alt_setting := 1, offset := AUDIO_OFFSET_NONE,
                                                   rd_enable := 1, wr_ptr := 960\<rparr>),
                tx_flag := 0, is_playing := 1, all_ready := 1\<rparr>"

text \<open>A \<^verbatim>\<open>SET_INTERFACE\<close> request for interface 1 with the given \<^verbatim>\<open>wValue\<close>, and a
  configured state whose ring holds \<open>0xAA\<close> in every byte.\<close>

definition set_interface_req :: "16 word \<Rightarrow> USBD_SetupReqTypedef" where
  "set_interface_req alt =
     \<lparr>bmRequest = 0x01, bRequest = 0x0B, wValue = alt, wIndex = 1, wLength = 0\<rparr>"

definition dirty_state :: usbd where
  "dirty_state = idle_state\<lparr>pClassData := Some (idle_handle\<lparr>buffer := (\<lambda>i. 0xAA)\<rparr>)\<rparr>"

text \<open>The isochronous event handlers.\<close>

fun is_iso :: "event \<Rightarrow> bool" where
  "is_iso (Ev_DataIn epnum) = True"
| "is_iso (Ev_DataOut epnum rx_size tmpbuf) = True"
| "is_iso (Ev_SOF ndtr fnsof_new) = True"
| "is_iso (Ev_IsoINIncomplete epnum fnsof_new) = True"
| "is_iso (Ev_IsoOutIncomplete epnum) = True"
| "is_iso e = False"

text \<open>The write offset is on a frame boundary and inside the ring.\<close>

definition wr_ok :: "audio_conf \<Rightarrow> USBD_AUDIO_HandleTypeDef \<Rightarrow> bool" where
  "wr_ok cfg h \<longleftrightarrow>
     unat (wr_ptr h) mod 4 = 0 \<and> unat (wr_ptr h) < unat (AUDIO_TOTAL_BUF_SIZE cfg)"

text \<open>The write offset has reached the middle of the ring,
  \<^verbatim>\<open>wr_ptr >= AUDIO_TOTAL_BUF_SIZE / 2U\<close>.\<close>

definition half_full :: "audio_conf \<Rightarrow> usbd \<Rightarrow> bool" where
  "half_full cfg s =
     (case pClassData s of
        None \<Rightarrow> False
      | Some h \<Rightarrow> AUDIO_TOTAL_BUF_SIZE cfg div 2 \<le> ucast (wr_ptr h))"

text \<open>\<^verbatim>\<open>is_playing\<close> goes from 0 to 1 between two states.\<close>

definition rising :: "usbd \<Rightarrow> usbd \<Rightarrow> bool" where
  "rising s s' \<longleftrightarrow> is_playing s = 0 \<and> is_playing s' = 1"

text \<open>The steps of a run: the state before, the event, the state after.\<close>

fun steps_of :: "usbd \<Rightarrow> event list \<Rightarrow> usbd list \<Rightarrow> (usbd \<times> event \<times> usbd) list" where
  "steps_of s (e # es) (s' # ss) = (s, e, s') # steps_of s' es ss"
| "steps_of s es ss = []"

text \<open>What holds of the handle between two resets: the write offset is in order, and
  reading is off as long as the start of playback is pending.\<close>

definition sess_inv :: "audio_conf \<Rightarrow> usbd \<Rightarrow> bool" where
  "sess_inv cfg s =
     (case pClassData s of
        None \<Rightarrow> False
      | Some h \<Rightarrow> wr_ok cfg h \<and> (offset h = AUDIO_OFFSET_UNKNOWN \<longrightarrow> rd_enable h = 0))"

text \<open>What one step between two resets does to \<^verbatim>\<open>is_playing\<close> and to the DAC.\<close>

definition step_prop :: "audio_conf \<Rightarrow> usbd \<Rightarrow> event \<Rightarrow> usbd \<Rightarrow> bool" where
  "step_prop cfg s e s' =
     (if rising s s'
      then is_DataOut e \<and> half_full cfg s' \<and>
           filter is_AudioCmd (new_calls s s') =
             [Itf_AudioCmd 0 (AUDIO_TOTAL_BUF_SIZE cfg div 2) AUDIO_CMD_START]
      else is_playing s' = is_playing s \<and> filter is_AudioCmd (new_calls s s') = [])"

text \<open>A ring of 16 bytes with packets of 8, a state armed for streaming with nothing
  written yet, a staging buffer holding 0, 1, 2, ..., and two sequences of events: one of
  packets only (4 bytes, an oversize one, 8 bytes), one of a stream after
  \<^verbatim>\<open>SET_INTERFACE\<close> with alternate setting 1.\<close>

definition conf16 :: audio_conf where
  "conf16 = conf48\<lparr>AUDIO_TOTAL_BUF_SIZE := 16, AUDIO_OUT_PACKET := 8\<rparr>"

definition armed_state :: usbd where
  "armed_state = idle_state\<lparr>pClassData := Some (idle_handle\<lparr>alt_setting := 1\<rparr>),
                            tx_flag := 0, all_ready := 1\<rparr>"

definition ramp :: "nat \<Rightarrow> 8 word" where
  "ramp i = of_nat i"

definition session_events :: "event list" where
  "session_events = [Ev_DataOut 1 4 ramp, Ev_DataOut 1 12 ramp, Ev_DataOut 1 7 ramp, Ev_SOF 0 0,
                     Ev_DataOut 1 8 ramp]"

definition session_begin :: usbd where
  "session_begin = snd (USBD_AUDIO_Setup conf16 (set_interface_req 1) idle_state)"

definition ingest_events :: "event list" where
  "ingest_events = [Ev_DataOut 1 4 ramp, Ev_DataOut 1 12 ramp, Ev_DataOut 1 8 ramp]"

section \<open>Properties\<close>

subsection \<open>Collected definitions\<close>

lemmas example_defs = conf48_def idle_handle_def boot_state_def idle_state_def streaming_state_def

lemmas req_defs = USB_REQ_TYPE_MASK_def USB_REQ_TYPE_STANDARD_def USB_REQ_TYPE_CLASS_def
  USB_REQ_GET_STATUS_def USB_REQ_CLEAR_FEATURE_def USB_REQ_GET_DESCRIPTOR_def
  USB_REQ_GET_INTERFACE_def USB_REQ_SET_INTERFACE_def AUDIO_REQ_GET_CUR_def AUDIO_REQ_SET_CUR_def

subsection \<open>Words of different widths\<close>

lemma unat16_lt: "unat (w :: 16 word) < 65536"
  using unsigned_less [of w, where 'a=nat] by simp

lemma unat8_lt: "unat (w :: 8 word) < 256"
  using unsigned_less [of w, where 'a=nat] by simp

lemma unat_ucast16_32: "unat (ucast (w :: 16 word) :: 32 word) = unat w"
proof -
  have "unat w < 2 ^ 32" using unat16_lt [of w] by simp
  then show ?thesis by (simp add: unsigned_ucast_eq take_bit_nat_eq_self)
qed

lemma unat_ucast8_32: "unat (ucast (w :: 8 word) :: 32 word) = unat w"
proof -
  have "unat w < 2 ^ 32" using unat8_lt [of w] by simp
  then show ?thesis by (simp add: unsigned_ucast_eq take_bit_nat_eq_self)
qed

lemma ucast8_32_eq_0: "(ucast (x :: 8 word) :: 32 word) = 0 \<longleftrightarrow> x = 0"
  using unat_ucast8_32 [of x] by (metis unat_eq_0)

subsection \<open>What the helpers leave alone\<close>

lemma do_call_frame [simp]:
  "tx_flag (do_call c s) = tx_flag s"
  "fnsof (do_call c s) = fnsof s"
  "all_ready (do_call c s) = all_ready s"
  "is_playing (do_call c s) = is_playing s"
  "pClassData (do_call c s) = pClassData s"
  "dev_state (do_call c s) = dev_state s"
  "calls (do_call c s) = calls s @ [c]"
  by (simp_all add: do_call_def)

lemma playback_start_frame [simp]:
  "tx_flag (playback_start cfg h s) = tx_flag s"
  "fnsof (playback_start cfg h s) = fnsof s"
  "all_ready (playback_start cfg h s) = all_ready s"
  "dev_state (playback_start cfg h s) = dev_state s"
  by (simp_all add: playback_start_def do_call_def Let_def)

lemma feedback_update_frame [simp]:
  "tx_flag (feedback_update cfg w s) = tx_flag s"
  "fnsof (feedback_update cfg w s) = fnsof s"
  "all_ready (feedback_update cfg w s) = all_ready s"
  "is_playing (feedback_update cfg w s) = is_playing s"
  "calls (feedback_update cfg w s) = calls s"
  "pClassData (feedback_update cfg w s) = pClassData s"
  "dev_state (feedback_update cfg w s) = dev_state s"
  by (simp_all add: feedback_update_def Let_def)

lemma feedback_submit_frame [simp]:
  "fb_value (feedback_submit cfg f s) = fb_value s"
  "fb_data (feedback_submit cfg f s) = fb_data s"
  "fnsof (feedback_submit cfg f s) = fnsof s"
  "all_ready (feedback_submit cfg f s) = all_ready s"
  "is_playing (feedback_submit cfg f s) = is_playing s"
  "pClassData (feedback_submit cfg f s) = pClassData s"
  "dev_state (feedback_submit cfg f s) = dev_state s"
  by (simp_all add: feedback_submit_def do_call_def)

subsection \<open>The feedback value\<close>

lemma fb_nom_cases:
  "fb_nom cfg = 402653184 \<or> fb_nom cfg = 201326592 \<or> fb_nom cfg = 184968806"
  by (simp add: fb_nom_def AUDIO_FB_DEFAULT_def)

lemma fb_delta_val: "AUDIO_FB_DELTA = 4194304"
  by (simp add: AUDIO_FB_DELTA_def)

lemma fb_hi: "uint (fb_nom cfg + AUDIO_FB_DELTA) = uint (fb_nom cfg) + uint AUDIO_FB_DELTA"
  using fb_nom_cases [of cfg] by (auto simp: fb_delta_val)

lemma fb_lo: "uint (fb_nom cfg - AUDIO_FB_DELTA) = uint (fb_nom cfg) - uint AUDIO_FB_DELTA"
  using fb_nom_cases [of cfg] by (auto simp: fb_delta_val)

lemma feedback_update_range:
  "uint (fb_nom cfg) - uint AUDIO_FB_DELTA \<le> uint (fb_value (feedback_update cfg w s)) \<and>
   uint (fb_value (feedback_update cfg w s)) \<le> uint (fb_nom cfg) + uint AUDIO_FB_DELTA"
  unfolding feedback_update_def Let_def
  using fb_hi [of cfg] fb_lo [of cfg]
  by (auto simp: word_less_def word_le_def fb_delta_val)

text \<open>
  C1. Whenever \<^verbatim>\<open>USBD_AUDIO_SOF\<close> computes the feedback (the handle is there,
  \<^verbatim>\<open>rd_enable >= 1\<close> and \<^verbatim>\<open>all_ready == 1\<close>), it returns, and the value it leaves in
  \<^verbatim>\<open>fb_value\<close> lies between \<^verbatim>\<open>fb_nom - AUDIO_FB_DELTA\<close> and \<^verbatim>\<open>fb_nom + AUDIO_FB_DELTA\<close>,
  as integers, whatever the offsets of the ring, the \<^verbatim>\<open>NDTR\<close> register and the
  configuration are.
\<close>

theorem sof_feedback_clamped:
  assumes "pClassData s = Some haudio" and "rd_enable haudio \<ge> 1" and "all_ready s = 1"
  shows "\<exists>s'. USBD_AUDIO_SOF cfg ndtr fnsof_new s = Some (USBD_OK, s') \<and>
           uint (fb_nom cfg) - uint AUDIO_FB_DELTA \<le> uint (fb_value s') \<and>
           uint (fb_value s') \<le> uint (fb_nom cfg) + uint AUDIO_FB_DELTA"
  using assms feedback_update_range
  by (simp add: USBD_AUDIO_SOF_def Let_def fb_nom_def fb_delta_val)

theorem sof_feedback_clamped_witness:
  "\<exists>s'. USBD_AUDIO_SOF conf48 1000 1 streaming_state = Some (USBD_OK, s') \<and>
         uint (fb_nom conf48) - uint AUDIO_FB_DELTA \<le> uint (fb_value s') \<and>
         uint (fb_value s') \<le> uint (fb_nom conf48) + uint AUDIO_FB_DELTA"
  using sof_feedback_clamped [of streaming_state "the (pClassData streaming_state)" conf48 1000 1]
  by (simp add: example_defs)

lemma pid_feedback_zero: "pid_feedback cfg 0 = fb_nom cfg"
  using fb_nom_cases [of cfg] by (auto simp: pid_feedback_def Let_def)

lemma feedback_update_zero:
  assumes "audio_buf_writable_dev_from_nom_size cfg w = 0"
  shows "fb_value (feedback_update cfg w s) = fb_nom cfg"
    and "fb_data (feedback_update cfg w s) = fb_bytes (fb_nom cfg)"
  using assms fb_nom_cases [of cfg]
  by (auto simp: feedback_update_def Let_def pid_feedback_zero fb_delta_val word_less_def)

text \<open>
  C8. When the deviation \<^verbatim>\<open>audio_buf_writable_dev_from_nom_size\<close> that a tick of
  \<^verbatim>\<open>USBD_AUDIO_SOF\<close> computes from the \<^verbatim>\<open>NDTR\<close> register and \<^verbatim>\<open>wr_ptr\<close> is 0, the tick
  leaves \<^verbatim>\<open>fb_value\<close> equal to \<^verbatim>\<open>fb_nom\<close> exactly, and at 48 kHz the feedback packet is
  \<open>0x00, 0x00, 0x0C\<close>.
\<close>

theorem sof_feedback_nominal:
  assumes "pClassData s = Some haudio" and "rd_enable haudio \<ge> 1" and "all_ready s = 1"
    and "audio_buf_writable_dev_from_nom_size cfg
           (audio_buf_writable_size cfg
              (ucast (AUDIO_TOTAL_BUF_SIZE cfg - (ndtr AND 0xFFFF))) (wr_ptr haudio)) = 0"
  shows "\<exists>s'. USBD_AUDIO_SOF cfg ndtr fnsof_new s = Some (USBD_OK, s') \<and>
           fb_value s' = fb_nom cfg \<and>
           (USBD_AUDIO_FREQ cfg = 48000 \<longrightarrow> fb_data s' = [0x00, 0x00, 0x0C])"
  using assms feedback_update_zero [of cfg _ _]
  by (auto simp: USBD_AUDIO_SOF_def Let_def fb_nom_def AUDIO_FB_DEFAULT_def fb_bytes_def)

theorem sof_feedback_nominal_witness:
  "audio_buf_writable_dev_from_nom_size conf48
     (audio_buf_writable_size conf48
        (ucast (AUDIO_TOTAL_BUF_SIZE conf48 - (320 AND 0xFFFF))) 960) = 0 \<and>
   (\<exists>s'. USBD_AUDIO_SOF conf48 320 0 streaming_state = Some (USBD_OK, s') \<and>
         fb_value s' = fb_nom conf48 \<and> fb_data s' = [0x00, 0x00, 0x0C])"
  using sof_feedback_nominal [of streaming_state "the (pClassData streaming_state)" conf48 320 0]
  by (simp add: example_defs audio_buf_writable_dev_from_nom_size_def audio_buf_writable_size_def)

subsection \<open>SET_INTERFACE\<close>

lemma setup_set_interface:
  "pClassData s = Some haudio \<Longrightarrow> is_set_interface req \<Longrightarrow>
   USBD_AUDIO_Setup cfg req s = set_interface cfg req haudio s"
  by (auto simp: USBD_AUDIO_Setup_def is_set_interface_def req_defs)

text \<open>The branch \<^verbatim>\<open>alt_setting != 0\<close> as a whole: the state it leaves and the calls it makes.\<close>

lemma set_interface_operational:
  assumes "pClassData s = Some haudio" and "dev_state s = USBD_STATE_CONFIGURED"
    and "is_set_interface req" and "req_alt req \<noteq> 0"
    and "ucast (req_alt req) \<le> USBD_MAX_NUM_INTERFACES cfg"
  shows "USBD_AUDIO_Setup cfg req s =
           (USBD_OK,
            s\<lparr>pClassData := Some (haudio\<lparr>alt_setting := ucast (req_alt req),
                                         offset := AUDIO_OFFSET_UNKNOWN, rd_enable := 0,
                                         rd_ptr := 0, wr_ptr := 0\<rparr>),
              tx_flag := 0, is_playing := 0, all_ready := 1,
              calls := calls s @ [LL_FlushEP (AUDIO_IN_EP cfg), LL_FlushEP (AUDIO_OUT_EP cfg),
                                  Itf_Init (USBD_AUDIO_FREQ cfg) (AUDIO_DEFAULT_VOLUME cfg) 0,
                                  LL_FlushEP (AUDIO_IN_EP cfg)]\<rparr>)"
proof -
  have nz: "(ucast (req_alt req) :: 32 word) \<noteq> 0"
    using assms(4) by (simp add: ucast8_32_eq_0)
  show ?thesis
    using assms nz
    by (cases s)
       (simp add: setup_set_interface set_interface_def set_interface_reset_def do_call_def
        req_alt_def Let_def)
qed

text \<open>The branch \<^verbatim>\<open>alt_setting == 0\<close>: the same resets and flushes, after the ring has been
  zeroed, and \<^verbatim>\<open>DeInit\<close> of the interface.\<close>

lemma set_interface_zero_bandwidth:
  assumes "pClassData s = Some haudio" and "dev_state s = USBD_STATE_CONFIGURED"
    and "is_set_interface req" and "req_alt req = 0"
  shows "USBD_AUDIO_Setup cfg req s =
           (USBD_OK,
            s\<lparr>pClassData := Some (haudio\<lparr>alt_setting := 0,
                                         buffer := (\<lambda>i. if i < unat (AUDIO_TOTAL_BUF_SIZE cfg) then 0
                                                         else buffer haudio i),
                                         offset := AUDIO_OFFSET_UNKNOWN, rd_enable := 0,
                                         rd_ptr := 0, wr_ptr := 0\<rparr>),
              tx_flag := 1, is_playing := 0, all_ready := 0,
              calls := calls s @ [LL_FlushEP (AUDIO_IN_EP cfg), LL_FlushEP (AUDIO_OUT_EP cfg),
                                  Itf_DeInit 0, LL_FlushEP (AUDIO_IN_EP cfg)]\<rparr>)"
  using assms
  by (cases s)
     (simp add: setup_set_interface set_interface_def set_interface_reset_def do_call_def
      req_alt_def Let_def)

text \<open>
  C3, as stated, fails: in Configured state \<^verbatim>\<open>SET_INTERFACE\<close> with alternate setting 1
  is accepted and leaves the byte \<open>0xAA\<close> at offset 0 of the ring, where alternate
  setting 0 on the same state zeroes it. Only the branch \<^verbatim>\<open>alt_setting == 0\<close> has the
  \<^verbatim>\<open>memset\<close>.
\<close>

theorem set_interface_alt1_keeps_ring:
  "dev_state dirty_state = USBD_STATE_CONFIGURED \<and>
   is_set_interface (set_interface_req 1) \<and> req_alt (set_interface_req 1) = 1 \<and>
   fst (USBD_AUDIO_Setup conf48 (set_interface_req 1) dirty_state) = USBD_OK \<and>
   buffer (the (pClassData (snd (USBD_AUDIO_Setup conf48 (set_interface_req 1) dirty_state)))) 0
     = 0xAA \<and>
   buffer (the (pClassData (snd (USBD_AUDIO_Setup conf48 (set_interface_req 0) dirty_state)))) 0
     = 0"
  by (simp add: USBD_AUDIO_Setup_def set_interface_def set_interface_reset_def do_call_def
      set_interface_req_def dirty_state_def example_defs req_defs is_set_interface_def
      req_alt_def Let_def)

text \<open>
  C3, amended. For a \<^verbatim>\<open>SET_INTERFACE\<close> request with alternate setting 1, received in
  Configured state by a device whose handle is allocated (1 being within
  \<^verbatim>\<open>USBD_MAX_NUM_INTERFACES\<close>), the handler returns \<^verbatim>\<open>USBD_OK\<close>; it stores the alternate
  setting, makes the resets of the branch for alternate setting 0 other than the zeroing
  of the ring (\<^verbatim>\<open>is_playing = 0\<close>, \<^verbatim>\<open>wr_ptr = rd_ptr = 0\<close>, \<^verbatim>\<open>offset = UNKNOWN\<close>,
  \<^verbatim>\<open>rd_enable = 0\<close>, flush of the IN and of the OUT endpoint), leaves the ring buffer as it
  was, calls \<^verbatim>\<open>Init(USBD_AUDIO_FREQ, AUDIO_DEFAULT_VOLUME, 0)\<close> of the interface, and ends
  with \<^verbatim>\<open>tx_flag = 0\<close>, \<^verbatim>\<open>all_ready = 1\<close> and one more flush of the IN endpoint.
\<close>

theorem set_interface_alt1:
  assumes "pClassData s = Some haudio" and "dev_state s = USBD_STATE_CONFIGURED"
    and "is_set_interface req" and "req_alt req = 1"
    and "1 \<le> USBD_MAX_NUM_INTERFACES cfg"
  shows "USBD_AUDIO_Setup cfg req s =
           (USBD_OK,
            s\<lparr>pClassData := Some (haudio\<lparr>alt_setting := 1,
                                         offset := AUDIO_OFFSET_UNKNOWN, rd_enable := 0,
                                         rd_ptr := 0, wr_ptr := 0\<rparr>),
              tx_flag := 0, is_playing := 0, all_ready := 1,
              calls := calls s @ [LL_FlushEP (AUDIO_IN_EP cfg), LL_FlushEP (AUDIO_OUT_EP cfg),
                                  Itf_Init (USBD_AUDIO_FREQ cfg) (AUDIO_DEFAULT_VOLUME cfg) 0,
                                  LL_FlushEP (AUDIO_IN_EP cfg)]\<rparr>)"
  using set_interface_operational [OF assms(1,2,3), of cfg] assms(4,5) by simp

theorem set_interface_alt1_witness:
  "USBD_AUDIO_Setup conf48 (set_interface_req 1) dirty_state =
     (USBD_OK,
      dirty_state\<lparr>pClassData := Some (idle_handle\<lparr>buffer := (\<lambda>i. 0xAA), alt_setting := 1\<rparr>),
                  tx_flag := 0, is_playing := 0, all_ready := 1,
                  calls := [LL_FlushEP 0x81, LL_FlushEP 0x01, Itf_Init 48000 70 0,
                            LL_FlushEP 0x81]\<rparr>)"
  using set_interface_alt1 [of dirty_state "idle_handle\<lparr>buffer := (\<lambda>i. 0xAA)\<rparr>"
      "set_interface_req 1" conf48]
  by (simp add: set_interface_req_def dirty_state_def example_defs req_defs is_set_interface_def
      req_alt_def)

text \<open>
  C10. For a \<^verbatim>\<open>SET_INTERFACE\<close> request with an alternate setting from 2 to
  \<^verbatim>\<open>USBD_MAX_NUM_INTERFACES\<close>, received in Configured state by a device whose handle is
  allocated, the handler returns \<^verbatim>\<open>USBD_OK\<close> without \<^verbatim>\<open>USBD_CtlError\<close>, stores the value in
  \<^verbatim>\<open>alt_setting\<close> and runs the branch of alternate setting 1: the resets, the flushes,
  \<^verbatim>\<open>Init\<close> of the interface, \<^verbatim>\<open>tx_flag = 0\<close> and \<^verbatim>\<open>all_ready = 1\<close>.
\<close>

theorem set_interface_alt_ge_2:
  assumes "pClassData s = Some haudio" and "dev_state s = USBD_STATE_CONFIGURED"
    and "is_set_interface req" and "2 \<le> req_alt req"
    and "ucast (req_alt req) \<le> USBD_MAX_NUM_INTERFACES cfg"
  shows "USBD_AUDIO_Setup cfg req s =
           (USBD_OK,
            s\<lparr>pClassData := Some (haudio\<lparr>alt_setting := ucast (req_alt req),
                                         offset := AUDIO_OFFSET_UNKNOWN, rd_enable := 0,
                                         rd_ptr := 0, wr_ptr := 0\<rparr>),
              tx_flag := 0, is_playing := 0, all_ready := 1,
              calls := calls s @ [LL_FlushEP (AUDIO_IN_EP cfg), LL_FlushEP (AUDIO_OUT_EP cfg),
                                  Itf_Init (USBD_AUDIO_FREQ cfg) (AUDIO_DEFAULT_VOLUME cfg) 0,
                                  LL_FlushEP (AUDIO_IN_EP cfg)]\<rparr>)"
proof -
  have "req_alt req \<noteq> 0" using assms(4) by auto
  then show ?thesis using set_interface_operational [OF assms(1,2,3) _ assms(5)] by simp
qed

theorem set_interface_alt_ge_2_witness:
  "USBD_AUDIO_Setup (conf48\<lparr>USBD_MAX_NUM_INTERFACES := 2\<rparr>) (set_interface_req 2) streaming_state =
     (USBD_OK,
      streaming_state\<lparr>pClassData := Some (idle_handle\<lparr>alt_setting := 2\<rparr>),
                      tx_flag := 0, is_playing := 0, all_ready := 1,
                      calls := [LL_FlushEP 0x81, LL_FlushEP 0x01, Itf_Init 48000 70 0,
                                LL_FlushEP 0x81]\<rparr>)"
  using set_interface_alt_ge_2 [of streaming_state "the (pClassData streaming_state)"
      "set_interface_req 2" "conf48\<lparr>USBD_MAX_NUM_INTERFACES := 2\<rparr>"]
  by (simp add: set_interface_req_def example_defs req_defs is_set_interface_def req_alt_def)

text \<open>
  C9, as stated, fails: before \<^verbatim>\<open>Init\<close> the device is not in Configured state and has no
  handle; \<^verbatim>\<open>SET_INTERFACE\<close> then returns \<^verbatim>\<open>USBD_FAIL\<close> from the test \<^verbatim>\<open>haudio == NULL\<close>
  and the state, with its empty log of calls, is as before: \<^verbatim>\<open>USBD_CtlError\<close> is not
  called.
\<close>

theorem set_interface_no_handle:
  "dev_state boot_state \<noteq> USBD_STATE_CONFIGURED \<and> is_set_interface (set_interface_req 0) \<and>
   USBD_AUDIO_Setup conf48 (set_interface_req 0) boot_state = (USBD_FAIL, boot_state) \<and>
   CtlError \<notin> set (calls boot_state)"
  by (simp add: USBD_AUDIO_Setup_def set_interface_req_def example_defs req_defs
      is_set_interface_def)

text \<open>
  C9, amended. Without a handle, \<^verbatim>\<open>SET_INTERFACE\<close> returns \<^verbatim>\<open>USBD_FAIL\<close> and changes
  nothing, \<^verbatim>\<open>USBD_CtlError\<close> not being called. With a handle, it is rejected with
  \<^verbatim>\<open>USBD_CtlError\<close> and \<^verbatim>\<open>USBD_FAIL\<close> exactly when the alternate setting exceeds
  \<^verbatim>\<open>USBD_MAX_NUM_INTERFACES\<close> or the device is not in Configured state, and otherwise
  returns \<^verbatim>\<open>USBD_OK\<close> without \<^verbatim>\<open>USBD_CtlError\<close>. A rejected request leaves the state as it
  was but for the logged \<^verbatim>\<open>USBD_CtlError\<close>: nothing is reset and neither \<^verbatim>\<open>Init\<close> nor
  \<^verbatim>\<open>DeInit\<close> of the interface is called.
\<close>

theorem set_interface_rejection:
  assumes "is_set_interface req"
  shows "case pClassData s of
           None \<Rightarrow> USBD_AUDIO_Setup cfg req s = (USBD_FAIL, s)
         | Some haudio \<Rightarrow>
             if USBD_MAX_NUM_INTERFACES cfg < ucast (req_alt req) \<or>
                dev_state s \<noteq> USBD_STATE_CONFIGURED
             then USBD_AUDIO_Setup cfg req s = (USBD_FAIL, do_call CtlError s)
             else fst (USBD_AUDIO_Setup cfg req s) = USBD_OK \<and>
                  CtlError \<notin> set (new_calls s (snd (USBD_AUDIO_Setup cfg req s)))"
proof (cases "pClassData s")
  case None
  then show ?thesis by (simp add: USBD_AUDIO_Setup_def)
next
  case (Some haudio)
  show ?thesis
    using Some assms
    by (auto simp: setup_set_interface set_interface_def set_interface_reset_def do_call_def
        req_alt_def Let_def new_calls_def not_less)
qed

theorem set_interface_rejection_witness:
  "is_set_interface (set_interface_req 2) \<and>
   USBD_AUDIO_Setup conf48 (set_interface_req 2) idle_state = (USBD_FAIL, do_call CtlError idle_state) \<and>
   USBD_AUDIO_Setup conf48 (set_interface_req 1) boot_state = (USBD_FAIL, boot_state)"
  using set_interface_rejection [where req = "set_interface_req 2" and s = idle_state and cfg = conf48]
    set_interface_rejection [where req = "set_interface_req 1" and s = boot_state and cfg = conf48]
  by (simp add: set_interface_req_def example_defs req_defs is_set_interface_def req_alt_def)

subsection \<open>The transmit flag\<close>

lemma dataout_tx_flag:
  "USBD_AUDIO_DataOut cfg epnum rx tmpbuf s = Some (r, s') \<Longrightarrow>
   tx_flag s' = tx_flag s \<and> fnsof s' = fnsof s"
  by (auto simp: USBD_AUDIO_DataOut_def Let_def split: option.splits if_splits)

lemma isoout_tx_flag:
  "USBD_AUDIO_IsoOutIncomplete cfg epnum s = Some (r, s') \<Longrightarrow>
   tx_flag s' = tx_flag s \<and> fnsof s' = fnsof s"
  by (auto simp: USBD_AUDIO_IsoOutIncomplete_def split: option.splits)

lemma sof_tx_flag:
  assumes "USBD_AUDIO_SOF cfg ndtr fnsof_new s = Some (r, s')"
  shows "fnsof s' = fnsof s \<and>
         (tx_flag s' = tx_flag s \<and> calls s' = calls s \<or>
          tx_flag s = 0 \<and> tx_flag s' = 1 \<and> fnsof s AND 1 = fnsof_new AND 1 \<and>
          calls s' = calls s @ [LL_Transmit (AUDIO_IN_EP cfg) (fb_data s') 3])"
  using assms
  by (auto simp: USBD_AUDIO_SOF_def Let_def feedback_submit_def do_call_def
      split: option.splits if_splits)

text \<open>
  C2, as stated, fails: \<^verbatim>\<open>USBD_AUDIO_IsoINIncomplete\<close> takes \<^verbatim>\<open>tx_flag\<close> from 1 to 0, not
  from 0 to 1.
\<close>

theorem isoin_clears_tx_flag:
  "tx_flag idle_state = 1 \<and>
   tx_flag (snd (USBD_AUDIO_IsoINIncomplete conf48 1 0 idle_state)) = 0"
  by (simp add: USBD_AUDIO_IsoINIncomplete_def do_call_def example_defs Let_def)

text \<open>
  C2, amended. With \<^verbatim>\<open>tx_flag\<close> being 0 or 1, an isochronous event handler that returns
  changes \<^verbatim>\<open>tx_flag\<close> only in these ways: \<^verbatim>\<open>USBD_AUDIO_DataIn\<close> on the feedback endpoint
  from 1 to 0, \<^verbatim>\<open>USBD_AUDIO_IsoINIncomplete\<close> from 1 to 0, and \<^verbatim>\<open>USBD_AUDIO_SOF\<close> from 0
  to 1 together with the submission of the feedback packet. \<^verbatim>\<open>USBD_AUDIO_DataOut\<close> and
  \<^verbatim>\<open>USBD_AUDIO_IsoOutIncomplete\<close> never change it.
\<close>

theorem tx_flag_transitions:
  assumes "is_iso e" and "tx_flag s = 0 \<or> tx_flag s = 1"
    and "step cfg e s = Some (r, s')" and "tx_flag s' \<noteq> tx_flag s"
  shows "(\<exists>epnum. e = Ev_DataIn epnum \<and> epnum = AUDIO_IN_EP cfg AND 0xf \<and>
                   tx_flag s = 1 \<and> tx_flag s' = 0) \<or>
         (\<exists>epnum fnsof_new. e = Ev_IsoINIncomplete epnum fnsof_new \<and>
                   tx_flag s = 1 \<and> tx_flag s' = 0) \<or>
         (\<exists>ndtr fnsof_new. e = Ev_SOF ndtr fnsof_new \<and> tx_flag s = 0 \<and> tx_flag s' = 1 \<and>
                   new_calls s s' = [LL_Transmit (AUDIO_IN_EP cfg) (fb_data s') 3])"
proof (cases e)
  case (Ev_DataIn epnum)
  then show ?thesis using assms
    by (auto simp: USBD_AUDIO_DataIn_def split: if_splits)
next
  case (Ev_DataOut epnum rx tmpbuf)
  then show ?thesis using assms dataout_tx_flag [of cfg epnum rx tmpbuf s r s'] by simp
next
  case (Ev_SOF ndtr fnsof_new)
  then show ?thesis using assms sof_tx_flag [of cfg ndtr fnsof_new s r s']
    by (auto simp: new_calls_def)
next
  case (Ev_IsoINIncomplete epnum fnsof_new)
  then show ?thesis using assms
    by (auto simp: USBD_AUDIO_IsoINIncomplete_def Let_def do_call_def split: if_splits)
next
  case (Ev_IsoOutIncomplete epnum)
  then show ?thesis using assms isoout_tx_flag [of cfg epnum s r s'] by simp
qed (use assms in simp_all)

theorem tx_flag_transitions_witness:
  "is_iso (Ev_SOF 320 0) \<and> tx_flag streaming_state = 0 \<and>
   (\<exists>s'. step conf48 (Ev_SOF 320 0) streaming_state = Some (USBD_OK, s') \<and> tx_flag s' = 1 \<and>
         new_calls streaming_state s' = [LL_Transmit 0x81 [0x00, 0x00, 0x0C] 3])"
  using tx_flag_transitions [where e = "Ev_SOF 320 0" and s = streaming_state and cfg = conf48
      and r = USBD_OK and s' = "snd (the (step conf48 (Ev_SOF 320 0) streaming_state))"]
  by (simp add: USBD_AUDIO_SOF_def Let_def feedback_update_def feedback_submit_def do_call_def
      example_defs fb_nom_def AUDIO_FB_DEFAULT_def AUDIO_FB_DELTA_def pid_feedback_def
      audio_buf_writable_dev_from_nom_size_def audio_buf_writable_size_def fb_bytes_def
      new_calls_def)

subsection \<open>Oversize packets\<close>

text \<open>
  C6. A \<^verbatim>\<open>USBD_AUDIO_DataOut\<close> on the audio OUT endpoint with \<^verbatim>\<open>all_ready == 1\<close> whose
  received size exceeds \<^verbatim>\<open>AUDIO_OUT_PACKET\<close> returns \<^verbatim>\<open>USBD_OK\<close>; \<^verbatim>\<open>wr_ptr\<close> and the ring
  are as before, \<^verbatim>\<open>USBD_CtlError\<close> is not among the calls made, and the last call re-arms
  the OUT endpoint for \<^verbatim>\<open>AUDIO_OUT_PACKET\<close> bytes.
\<close>

theorem dataout_oversize_dropped:
  assumes "pClassData s = Some haudio" and "all_ready s = 1"
    and "rx_size > AUDIO_OUT_PACKET cfg"
  shows "\<exists>s' h' cs.
           USBD_AUDIO_DataOut cfg (AUDIO_OUT_EP cfg) rx_size tmpbuf s = Some (USBD_OK, s') \<and>
           pClassData s' = Some h' \<and> wr_ptr h' = wr_ptr haudio \<and> buffer h' = buffer haudio \<and>
           calls s' = calls s @ cs @
             [LL_PrepareReceive (AUDIO_OUT_EP cfg) Staging (AUDIO_OUT_PACKET cfg)] \<and>
           CtlError \<notin> set cs"
  using assms
  by (auto simp: USBD_AUDIO_DataOut_def Let_def playback_start_def do_call_def)

theorem dataout_oversize_dropped_witness:
  "(196 :: 16 word) > AUDIO_OUT_PACKET conf48 \<and>
   (\<exists>s' h'. USBD_AUDIO_DataOut conf48 0x01 196 (\<lambda>i. 0x55) streaming_state = Some (USBD_OK, s') \<and>
      pClassData s' = Some h' \<and> wr_ptr h' = 960 \<and> buffer h' = (\<lambda>i. 0) \<and>
      calls s' = [LL_PrepareReceive 0x01 Staging 192])"
  using dataout_oversize_dropped [where s = streaming_state and cfg = conf48 and rx_size = 196
      and haudio = "the (pClassData streaming_state)" and tmpbuf = "\<lambda>i. 0x55"]
  by (simp add: USBD_AUDIO_DataOut_def Let_def playback_start_def do_call_def example_defs)

subsection \<open>The frame-parity guard\<close>

lemma step_fnsof:
  assumes "step cfg e s = Some (r, s')"
  shows "fnsof s' = last_fnsof [e] (fnsof s)"
proof (cases e)
  case (Ev_Init mem itf_ret)
  then show ?thesis using assms
    by (auto simp: USBD_AUDIO_Init_def Let_def split: option.splits if_splits)
next
  case Ev_DeInit
  then show ?thesis using assms
    by (auto simp: USBD_AUDIO_DeInit_def Let_def split: if_splits)
next
  case (Ev_Setup req)
  then show ?thesis using assms
    by (auto simp: USBD_AUDIO_Setup_def set_interface_def set_interface_reset_def
        AUDIO_REQ_GetCurrent_def AUDIO_REQ_SetCurrent_def Let_def
        split: option.splits if_splits)
next
  case Ev_EP0_TxReady
  then show ?thesis using assms by (auto simp: USBD_AUDIO_EP0_TxReady_def)
next
  case Ev_EP0_RxReady
  then show ?thesis using assms
    by (auto simp: USBD_AUDIO_EP0_RxReady_def split: option.splits if_splits)
next
  case (Ev_DataIn epnum)
  then show ?thesis using assms by (auto simp: USBD_AUDIO_DataIn_def split: if_splits)
next
  case (Ev_DataOut epnum rx tmpbuf)
  then show ?thesis using assms dataout_tx_flag [of cfg epnum rx tmpbuf s r s'] by simp
next
  case (Ev_SOF ndtr fnsof_new)
  then show ?thesis using assms sof_tx_flag [of cfg ndtr fnsof_new s r s'] by simp
next
  case (Ev_IsoINIncomplete epnum fnsof_new)
  then show ?thesis using assms
    by (auto simp: USBD_AUDIO_IsoINIncomplete_def Let_def split: if_splits)
next
  case (Ev_IsoOutIncomplete epnum)
  then show ?thesis using assms isoout_tx_flag [of cfg epnum s r s'] by simp
qed

lemma last_fnsof_Cons: "last_fnsof (e # es) f = last_fnsof es (last_fnsof [e] f)"
  by (cases e) simp_all

lemma run_fnsof:
  "run cfg es s0 = Some ss \<Longrightarrow> fnsof (last (s0 # ss)) = last_fnsof es (fnsof s0)"
proof (induction es arbitrary: s0 ss)
  case Nil
  then show ?case by simp
next
  case (Cons e es)
  from Cons.prems obtain r s1 ss1 where
    st: "step cfg e s0 = Some (r, s1)" and rn: "run cfg es s1 = Some ss1" and ss: "ss = s1 # ss1"
    by (auto split: option.splits)
  have "fnsof (last (s1 # ss1)) = last_fnsof es (fnsof s1)" using Cons.IH [OF rn] .
  then show ?case
    using step_fnsof [OF st] ss last_fnsof_Cons [of e es "fnsof s0"] by simp
qed

text \<open>
  C4. After any sequence of events, a tick of \<^verbatim>\<open>USBD_AUDIO_SOF\<close> on a device with a handle
  returns, and it submits the feedback packet (one \<^verbatim>\<open>USBD_LL_Transmit\<close> of 3 bytes on the
  IN endpoint, the only call of the tick) exactly when it is enabled, \<^verbatim>\<open>tx_flag\<close> is 0 and
  the low bit of the frame number just read equals the low bit of the frame number captured
  by the last \<^verbatim>\<open>USBD_AUDIO_IsoINIncomplete\<close> of the sequence (of \<^verbatim>\<open>fnsof\<close> as it was before
  the sequence, when there is none). A tick that submits leaves \<^verbatim>\<open>tx_flag\<close> at 1; a tick
  that does not submit makes no call and leaves \<^verbatim>\<open>tx_flag\<close> as it was.
\<close>

theorem sof_submit_guard:
  assumes "run cfg es s0 = Some ss" and "s = last (s0 # ss)" and "pClassData s = Some haudio"
  shows "\<exists>s'. USBD_AUDIO_SOF cfg ndtr fnsof_new s = Some (USBD_OK, s') \<and>
           (if rd_enable haudio \<ge> 1 \<and> all_ready s = 1 \<and> tx_flag s = 0 \<and>
               last_fnsof es (fnsof s0) AND 0x1 = fnsof_new AND 0x1
            then new_calls s s' = [LL_Transmit (AUDIO_IN_EP cfg) (fb_data s') 3] \<and> tx_flag s' = 1
            else new_calls s s' = [] \<and> tx_flag s' = tx_flag s)"
proof -
  have f: "fnsof s = last_fnsof es (fnsof s0)"
    using run_fnsof [OF assms(1)] assms(2) by simp
  show ?thesis
    using assms(3) f
    by (auto simp: USBD_AUDIO_SOF_def Let_def feedback_submit_def do_call_def new_calls_def)
qed


theorem sof_submit_guard_witness:
  "\<exists>ss s'. run conf48 [Ev_IsoINIncomplete 1 7, Ev_DataIn 1] streaming_state = Some ss \<and>
     USBD_AUDIO_SOF conf48 320 5 (last (streaming_state # ss)) = Some (USBD_OK, s') \<and>
     tx_flag (last (streaming_state # ss)) = 0 \<and>
     last_fnsof [Ev_IsoINIncomplete 1 7, Ev_DataIn 1] (fnsof streaming_state) = 7 \<and>
     new_calls (last (streaming_state # ss)) s' = [LL_Transmit 0x81 (fb_data s') 3] \<and>
     tx_flag s' = 1"
  using sof_submit_guard [where cfg = conf48 and es = "[Ev_IsoINIncomplete 1 7, Ev_DataIn 1]"
      and ?s0.0 = streaming_state and ndtr = 320 and fnsof_new = 5
      and ss = "the (run conf48 [Ev_IsoINIncomplete 1 7, Ev_DataIn 1] streaming_state)"
      and s = "last (streaming_state # the (run conf48 [Ev_IsoINIncomplete 1 7, Ev_DataIn 1] streaming_state))"
      and haudio = "the (pClassData streaming_state)"]
  by (simp add: USBD_AUDIO_IsoINIncomplete_def USBD_AUDIO_DataIn_def Let_def do_call_def
      example_defs)

subsection \<open>The write offset\<close>

lemma put_byte_ok:
  assumes "unat (wr_ptr h) < unat (AUDIO_TOTAL_BUF_SIZE cfg)"
  shows "\<exists>h'. put_byte cfg b h = Some h' \<and>
           unat (wr_ptr h') = (unat (wr_ptr h) + 1) mod 65536 \<and>
           offset h' = offset h \<and> rd_enable h' = rd_enable h"
  using assms by (simp add: put_byte_def unat_word_ariths)

lemma copy_sample_ok:
  assumes T: "0 < AUDIO_TOTAL_BUF_SIZE cfg" "unat (AUDIO_TOTAL_BUF_SIZE cfg) mod 4 = 0"
    and w: "wr_ok cfg h"
  shows "\<exists>h'. copy_sample cfg tmpbuf p h = Some h' \<and> wr_ok cfg h' \<and>
           offset h' = offset h \<and> rd_enable h' = rd_enable h"
proof -
  let ?n = "unat (wr_ptr h)" and ?T = "unat (AUDIO_TOTAL_BUF_SIZE cfg)"
  have n4: "?n mod 4 = 0" and nT: "?n < ?T" using w by (simp_all add: wr_ok_def)
  have n16: "?n < 65536" by (rule unat16_lt)
  have le: "?n + 4 \<le> ?T" using n4 nT T(2) by presburger
  have small: "?n + 3 < 65536" using n4 n16 by presburger
  obtain h1 where h1: "put_byte cfg (tmpbuf p) h = Some h1"
      "unat (wr_ptr h1) = ?n + 1" "offset h1 = offset h" "rd_enable h1 = rd_enable h"
    using put_byte_ok [of h cfg "tmpbuf p"] nT small by auto
  obtain h2 where h2: "put_byte cfg (tmpbuf (p + 1)) h1 = Some h2"
      "unat (wr_ptr h2) = ?n + 2" "offset h2 = offset h" "rd_enable h2 = rd_enable h"
    using put_byte_ok [of h1 cfg "tmpbuf (p + 1)"] h1 le small by auto
  obtain h3 where h3: "put_byte cfg (tmpbuf (p + 2)) h2 = Some h3"
      "unat (wr_ptr h3) = ?n + 3" "offset h3 = offset h" "rd_enable h3 = rd_enable h"
    using put_byte_ok [of h2 cfg "tmpbuf (p + 2)"] h2 le small by auto
  have "unat (wr_ptr h3) < ?T" using h3(2) le by simp
  from put_byte_ok [OF this, of "tmpbuf (p + 3)"]
  obtain h4 where h4: "put_byte cfg (tmpbuf (p + 3)) h3 = Some h4"
      "unat (wr_ptr h4) = (unat (wr_ptr h3) + 1) mod 65536"
      "offset h4 = offset h3" "rd_enable h4 = rd_enable h3"
    by blast
  have "unat (wr_ptr h4) = (?n + 4) mod 65536" using h4(2) h3(2) by (simp add: add.commute)
  moreover have "(?n + 4) mod 65536 mod 4 = (?n + 4) mod 4"
    by (rule mod_mod_cancel) simp
  ultimately have m4: "unat (wr_ptr h4) mod 4 = 0" using n4 by simp
  have Tpos: "0 < ?T" using T(1) by (simp add: word_less_nat_alt)
  let ?h' = "if ucast (wr_ptr h4) \<ge> AUDIO_TOTAL_BUF_SIZE cfg then h4\<lparr>wr_ptr := 0\<rparr> else h4"
  have res: "copy_sample cfg tmpbuf p h = Some ?h'"
    using h1(1) h2(1) h3(1) h4(1) by (simp add: copy_sample_def)
  have "wr_ok cfg ?h'"
    using m4 Tpos by (auto simp: wr_ok_def word_le_nat_alt unat_ucast16_32)
  moreover have "offset ?h' = offset h" "rd_enable ?h' = rd_enable h"
    using h4 h3 by auto
  ultimately show ?thesis using res by blast
qed

lemma copy_samples_ok:
  assumes "0 < AUDIO_TOTAL_BUF_SIZE cfg" "unat (AUDIO_TOTAL_BUF_SIZE cfg) mod 4 = 0"
    and "wr_ok cfg h"
  shows "\<exists>h'. copy_samples cfg tmpbuf n p h = Some h' \<and> wr_ok cfg h' \<and>
           offset h' = offset h \<and> rd_enable h' = rd_enable h"
  using assms(3)
proof (induction n arbitrary: p h)
  case 0
  then show ?case by simp
next
  case (Suc n)
  obtain h1 where h1: "copy_sample cfg tmpbuf p h = Some h1" "wr_ok cfg h1"
      "offset h1 = offset h" "rd_enable h1 = rd_enable h"
    using copy_sample_ok [OF assms(1,2) Suc.prems] by blast
  obtain h' where "copy_samples cfg tmpbuf n (p + 4) h1 = Some h'" "wr_ok cfg h'"
      "offset h' = offset h1" "rd_enable h' = rd_enable h1"
    using Suc.IH [OF h1(2)] by blast
  then show ?case using h1 by simp
qed

subsection \<open>The start of playback\<close>

lemma playback_start_prop:
  assumes "wr_ok cfg h" and "offset h = AUDIO_OFFSET_UNKNOWN \<longrightarrow> rd_enable h = 0"
  shows "sess_inv cfg (playback_start cfg h s) \<and>
         (if rising s (playback_start cfg h s)
          then half_full cfg (playback_start cfg h s) \<and>
               calls (playback_start cfg h s) =
                 calls s @ [Itf_AudioCmd 0 (AUDIO_TOTAL_BUF_SIZE cfg div 2) AUDIO_CMD_START]
          else is_playing (playback_start cfg h s) = is_playing s \<and>
               calls (playback_start cfg h s) = calls s)"
proof (cases "offset h = AUDIO_OFFSET_UNKNOWN \<and> is_playing s = 0 \<and>
              AUDIO_TOTAL_BUF_SIZE cfg div 2 \<le> ucast (wr_ptr h)")
  case True
  then have eq: "playback_start cfg h s =
      (do_call (Itf_AudioCmd 0 (AUDIO_TOTAL_BUF_SIZE cfg div 2) AUDIO_CMD_START)
         (s\<lparr>is_playing := 1\<rparr>))
        \<lparr>pClassData := Some (h\<lparr>offset := AUDIO_OFFSET_NONE, rd_enable := 1\<rparr>)\<rparr>"
    using assms(2) by (simp add: playback_start_def Let_def)
  show ?thesis
    unfolding eq using True assms(1)
    by (simp add: sess_inv_def wr_ok_def rising_def half_full_def do_call_def)
next
  case False
  then have eq: "playback_start cfg h s = s\<lparr>pClassData := Some h\<rparr>"
    by (auto simp: playback_start_def Let_def)
  show ?thesis
    unfolding eq using assms
    by (simp add: sess_inv_def rising_def)
qed

lemma dataout_session:
  assumes T: "0 < AUDIO_TOTAL_BUF_SIZE cfg" "unat (AUDIO_TOTAL_BUF_SIZE cfg) mod 4 = 0"
    and inv: "sess_inv cfg s"
  shows "\<exists>r s'. USBD_AUDIO_DataOut cfg epnum rx tmpbuf s = Some (r, s') \<and> sess_inv cfg s' \<and>
           step_prop cfg s (Ev_DataOut epnum rx tmpbuf) s'"
proof -
  obtain h where h: "pClassData s = Some h" "wr_ok cfg h"
      "offset h = AUDIO_OFFSET_UNKNOWN \<longrightarrow> rd_enable h = 0"
    using inv by (auto simp: sess_inv_def split: option.splits)
  show ?thesis
  proof (cases "epnum = AUDIO_OUT_EP cfg \<and> all_ready s = 1")
    case False
    then have "USBD_AUDIO_DataOut cfg epnum rx tmpbuf s = Some (USBD_OK, s)"
      using h(1) by (auto simp: USBD_AUDIO_DataOut_def)
    moreover have "step_prop cfg s (Ev_DataOut epnum rx tmpbuf) s"
      by (simp add: step_prop_def rising_def new_calls_def)
    ultimately show ?thesis using inv by blast
  next
    case True
    let ?n = "unat ((ucast (if rx > AUDIO_OUT_PACKET cfg then 0 else rx) :: 32 word) div 4)"
    obtain h' where h': "copy_samples cfg tmpbuf ?n 0 h = Some h'" "wr_ok cfg h'"
        "offset h' = offset h" "rd_enable h' = rd_enable h"
      using copy_samples_ok [OF T h(2)] by blast
    let ?s1 = "playback_start cfg h' s"
    let ?s' = "do_call (LL_PrepareReceive (AUDIO_OUT_EP cfg) Staging (AUDIO_OUT_PACKET cfg)) ?s1"
    have res: "USBD_AUDIO_DataOut cfg epnum rx tmpbuf s = Some (USBD_OK, ?s')"
      using True h(1) h'(1) by (simp add: USBD_AUDIO_DataOut_def Let_def)
    have h'3: "offset h' = AUDIO_OFFSET_UNKNOWN \<longrightarrow> rd_enable h' = 0"
      using h'(3,4) h(3) by simp
    note p = playback_start_prop [OF h'(2) h'3, of s]
    have i: "sess_inv cfg ?s'" using p by (simp add: sess_inv_def)
    have r: "rising s ?s' = rising s ?s1" by (simp add: rising_def)
    have hf: "half_full cfg ?s' = half_full cfg ?s1" by (simp add: half_full_def)
    have "step_prop cfg s (Ev_DataOut epnum rx tmpbuf) ?s'"
    proof (cases "rising s ?s1")
      case True
      then have "calls ?s' = calls s @ [Itf_AudioCmd 0 (AUDIO_TOTAL_BUF_SIZE cfg div 2) AUDIO_CMD_START,
                   LL_PrepareReceive (AUDIO_OUT_EP cfg) Staging (AUDIO_OUT_PACKET cfg)]"
        using p by simp
      then show ?thesis using True p r hf by (simp add: step_prop_def new_calls_def)
    next
      case False
      then have "calls ?s' = calls s @ [LL_PrepareReceive (AUDIO_OUT_EP cfg) Staging (AUDIO_OUT_PACKET cfg)]"
          and "is_playing ?s' = is_playing s"
        using p by simp_all
      then show ?thesis using False r by (simp add: step_prop_def new_calls_def)
    qed
    then show ?thesis using res i by blast
  qed
qed


lemma setup_session:
  assumes inv: "sess_inv cfg s" and nr: "\<not> is_set_interface req"
  shows "\<exists>r s'. USBD_AUDIO_Setup cfg req s = (r, s') \<and> sess_inv cfg s' \<and>
           is_playing s' = is_playing s \<and> filter is_AudioCmd (new_calls s s') = []"
proof -
  obtain h where h: "pClassData s = Some h" "wr_ok cfg h"
      "offset h = AUDIO_OFFSET_UNKNOWN \<longrightarrow> rd_enable h = 0"
    using inv by (auto simp: sess_inv_def split: option.splits)
  have gc: "sess_inv cfg (AUDIO_REQ_GetCurrent req h s)"
      "is_playing (AUDIO_REQ_GetCurrent req h s) = is_playing s"
      "filter is_AudioCmd (new_calls s (AUDIO_REQ_GetCurrent req h s)) = []"
    using h by (simp_all add: AUDIO_REQ_GetCurrent_def sess_inv_def wr_ok_def new_calls_def)
  have sc: "sess_inv cfg (AUDIO_REQ_SetCurrent req h s)"
      "is_playing (AUDIO_REQ_SetCurrent req h s) = is_playing s"
      "filter is_AudioCmd (new_calls s (AUDIO_REQ_SetCurrent req h s)) = []"
    using h by (simp_all add: AUDIO_REQ_SetCurrent_def sess_inv_def wr_ok_def new_calls_def)
  have dc: "\<And>c. \<not> is_AudioCmd c \<Longrightarrow> sess_inv cfg (do_call c s) \<and>
      is_playing (do_call c s) = is_playing s \<and>
      filter is_AudioCmd (new_calls s (do_call c s)) = []"
    using inv by (simp add: sess_inv_def new_calls_def)
  have id: "filter is_AudioCmd (new_calls s s) = []" by (simp add: new_calls_def)
  show ?thesis
    using h(1) nr gc sc id inv dc [of CtlError] dc [of "CtlSendData Src_status_info 2"]
      dc [of "CtlSendData Src_alt_setting 1"]
      dc [of "CtlSendData (Src_CfgDesc 18) (min USB_AUDIO_DESC_SIZ (wLength req))"]
    by (auto simp: USBD_AUDIO_Setup_def is_set_interface_def req_defs)
qed

lemma session_step:
  assumes T: "0 < AUDIO_TOTAL_BUF_SIZE cfg" "unat (AUDIO_TOTAL_BUF_SIZE cfg) mod 4 = 0"
    and inv: "sess_inv cfg s" and nr: "\<not> is_reset e"
  shows "\<exists>r s'. step cfg e s = Some (r, s') \<and> sess_inv cfg s' \<and> step_prop cfg s e s'"
proof -
  obtain h where h: "pClassData s = Some h" "wr_ok cfg h"
      "offset h = AUDIO_OFFSET_UNKNOWN \<longrightarrow> rd_enable h = 0"
    using inv by (auto simp: sess_inv_def split: option.splits)
  have quiet: "\<And>s'. sess_inv cfg s' \<Longrightarrow> is_playing s' = is_playing s \<Longrightarrow>
      filter is_AudioCmd (new_calls s s') = [] \<Longrightarrow> sess_inv cfg s' \<and> step_prop cfg s e s'"
    by (simp add: step_prop_def rising_def)
  show ?thesis
  proof (cases e)
    case (Ev_Init mem itf_ret)
    then show ?thesis using nr by simp
  next
    case Ev_DeInit
    then show ?thesis using nr by simp
  next
    case (Ev_Setup req)
    then have "\<not> is_set_interface req" using nr by simp
    from setup_session [OF inv this] obtain r s' where
      "USBD_AUDIO_Setup cfg req s = (r, s')" "sess_inv cfg s'"
      "is_playing s' = is_playing s" "filter is_AudioCmd (new_calls s s') = []"
      by blast
    then show ?thesis using Ev_Setup quiet by auto
  next
    case Ev_EP0_TxReady
    then show ?thesis using quiet [of s] inv
      by (simp add: USBD_AUDIO_EP0_TxReady_def new_calls_def)
  next
    case Ev_EP0_RxReady
    let ?s' = "snd (USBD_AUDIO_EP0_RxReady s)"
    have "sess_inv cfg ?s'" "is_playing ?s' = is_playing s"
        "filter is_AudioCmd (new_calls s ?s') = []"
      using h by (simp_all add: USBD_AUDIO_EP0_RxReady_def sess_inv_def wr_ok_def new_calls_def)
    from quiet [OF this] show ?thesis using Ev_EP0_RxReady
      by (metis prod.collapse step.simps(5))
  next
    case (Ev_DataIn epnum)
    let ?s' = "snd (USBD_AUDIO_DataIn cfg epnum s)"
    have "sess_inv cfg ?s'" "is_playing ?s' = is_playing s"
        "filter is_AudioCmd (new_calls s ?s') = []"
      using h by (simp_all add: USBD_AUDIO_DataIn_def sess_inv_def new_calls_def)
    from quiet [OF this] show ?thesis using Ev_DataIn
      by (metis prod.collapse step.simps(6))
  next
    case (Ev_DataOut epnum rx tmpbuf)
    then show ?thesis using dataout_session [OF T inv, of epnum rx tmpbuf] by simp
  next
    case (Ev_SOF ndtr fnsof_new)
    have "\<exists>s'. USBD_AUDIO_SOF cfg ndtr fnsof_new s = Some (USBD_OK, s')"
      using h(1) by (simp add: USBD_AUDIO_SOF_def Let_def)
    then obtain s' where s': "USBD_AUDIO_SOF cfg ndtr fnsof_new s = Some (USBD_OK, s')" ..
    have "sess_inv cfg s'" "is_playing s' = is_playing s"
      using s' h by (auto simp: USBD_AUDIO_SOF_def Let_def sess_inv_def wr_ok_def split: if_splits)
    moreover have "filter is_AudioCmd (new_calls s s') = []"
      using sof_tx_flag [OF s'] by (auto simp: new_calls_def)
    ultimately show ?thesis using quiet [of s'] s' Ev_SOF by simp
  next
    case (Ev_IsoINIncomplete epnum fnsof_new)
    let ?s' = "snd (USBD_AUDIO_IsoINIncomplete cfg epnum fnsof_new s)"
    have "sess_inv cfg ?s'" "is_playing ?s' = is_playing s"
        "filter is_AudioCmd (new_calls s ?s') = []"
      using h by (simp_all add: USBD_AUDIO_IsoINIncomplete_def Let_def sess_inv_def new_calls_def)
    from quiet [OF this] show ?thesis using Ev_IsoINIncomplete
      by (metis prod.collapse step.simps(9))
  next
    case (Ev_IsoOutIncomplete epnum)
    let ?s' = "do_call (LL_PrepareReceive (AUDIO_OUT_EP cfg) (Ring (unat (wr_ptr h))) (AUDIO_OUT_PACKET cfg))
                  (do_call (LL_FlushEP (AUDIO_OUT_EP cfg)) s)"
    have res: "USBD_AUDIO_IsoOutIncomplete cfg epnum s = Some (USBD_OK, ?s')"
      using h(1) by (simp add: USBD_AUDIO_IsoOutIncomplete_def)
    have "sess_inv cfg ?s'" "is_playing ?s' = is_playing s"
        "filter is_AudioCmd (new_calls s ?s') = []"
      using inv by (simp_all add: sess_inv_def new_calls_def)
    from quiet [OF this] show ?thesis using Ev_IsoOutIncomplete res by simp
  qed
qed


lemma session_start:
  assumes T: "0 < AUDIO_TOTAL_BUF_SIZE cfg"
    and r: "is_reset e0" and st: "step cfg e0 s = Some (USBD_OK, s0)"
    and h: "pClassData s0 \<noteq> None"
  shows "sess_inv cfg s0"
proof -
  have Tpos: "0 < unat (AUDIO_TOTAL_BUF_SIZE cfg)" using T by (simp add: word_less_nat_alt)
  show ?thesis
  proof (cases e0)
    case (Ev_Init mem itf_ret)
    then show ?thesis using st Tpos
      by (auto simp: USBD_AUDIO_Init_def Let_def sess_inv_def wr_ok_def
          split: option.splits if_splits)
  next
    case Ev_DeInit
    then show ?thesis using st h
      by (auto simp: USBD_AUDIO_DeInit_def Let_def split: if_splits)
  next
    case (Ev_Setup req)
    then have si: "is_set_interface req" using r by simp
    obtain h0 where h0: "pClassData s = Some h0"
      using st Ev_Setup by (cases "pClassData s") (auto simp: USBD_AUDIO_Setup_def)
    have "set_interface cfg req h0 s = (USBD_OK, s0)"
      using st Ev_Setup setup_set_interface [OF h0 si, of cfg] by simp
    then show ?thesis using Tpos
      by (auto simp: set_interface_def set_interface_reset_def Let_def sess_inv_def wr_ok_def
          split: if_splits)
  qed (use r in simp_all)
qed

lemma run_session:
  assumes T: "0 < AUDIO_TOTAL_BUF_SIZE cfg" "unat (AUDIO_TOTAL_BUF_SIZE cfg) mod 4 = 0"
  shows "sess_inv cfg s0 \<Longrightarrow> \<forall>e\<in>set es. \<not> is_reset e \<Longrightarrow>
         \<exists>ss. run cfg es s0 = Some ss \<and>
              (\<forall>(s, e, s') \<in> set (steps_of s0 es ss). step_prop cfg s e s') \<and>
              (is_playing s0 \<noteq> 0 \<longrightarrow>
                 filter (\<lambda>(s, e, s'). rising s s') (steps_of s0 es ss) = []) \<and>
              length (filter (\<lambda>(s, e, s'). rising s s') (steps_of s0 es ss)) \<le> 1"
proof (induction es arbitrary: s0)
  case Nil
  then show ?case by simp
next
  case (Cons e es)
  from Cons.prems have nr: "\<not> is_reset e" and rest: "\<forall>e\<in>set es. \<not> is_reset e" by simp_all
  from session_step [OF T Cons.prems(1) nr] obtain r s1 where
    st: "step cfg e s0 = Some (r, s1)" and inv1: "sess_inv cfg s1" and sp: "step_prop cfg s0 e s1"
    by blast
  from Cons.IH [OF inv1 rest] obtain ss1 where
    rn: "run cfg es s1 = Some ss1"
    and all1: "\<forall>(s, e, s') \<in> set (steps_of s1 es ss1). step_prop cfg s e s'"
    and none1: "is_playing s1 \<noteq> 0 \<longrightarrow>
                  filter (\<lambda>(s, e, s'). rising s s') (steps_of s1 es ss1) = []"
    and le1: "length (filter (\<lambda>(s, e, s'). rising s s') (steps_of s1 es ss1)) \<le> 1"
    by blast
  have res: "run cfg (e # es) s0 = Some (s1 # ss1)" using st rn by simp
  have keep: "\<not> rising s0 s1 \<Longrightarrow> is_playing s1 = is_playing s0"
    using sp by (simp add: step_prop_def)
  have up: "rising s0 s1 \<Longrightarrow> is_playing s1 \<noteq> 0" by (simp add: rising_def)
  have nz: "is_playing s0 \<noteq> 0 \<Longrightarrow> \<not> rising s0 s1" by (simp add: rising_def)
  show ?case
  proof (intro exI conjI)
    show "run cfg (e # es) s0 = Some (s1 # ss1)" by (rule res)
    show "\<forall>(s, e, s') \<in> set (steps_of s0 (e # es) (s1 # ss1)). step_prop cfg s e s'"
      using sp all1 by simp
    show "is_playing s0 \<noteq> 0 \<longrightarrow>
            filter (\<lambda>(s, e, s'). rising s s') (steps_of s0 (e # es) (s1 # ss1)) = []"
      using nz keep none1 by auto
    show "length (filter (\<lambda>(s, e, s'). rising s s') (steps_of s0 (e # es) (s1 # ss1))) \<le> 1"
      using up none1 le1 by (cases "rising s0 s1") simp_all
  qed
qed

text \<open>
  C5. Take a reset that succeeds and leaves a handle (\<^verbatim>\<open>USBD_AUDIO_Init\<close> or an accepted
  \<^verbatim>\<open>SET_INTERFACE\<close>), then any sequence of events without a reset, on a ring whose size is
  a positive multiple of 4. Every event of the sequence returns. Among its steps at most
  one takes \<^verbatim>\<open>is_playing\<close> from 0 to 1; that step is a \<^verbatim>\<open>USBD_AUDIO_DataOut\<close> after which
  \<^verbatim>\<open>wr_ptr >= AUDIO_TOTAL_BUF_SIZE / 2\<close>, and the \<^verbatim>\<open>AudioCmd\<close> calls it makes are exactly
  one, \<^verbatim>\<open>AudioCmd(&buffer[0], AUDIO_TOTAL_BUF_SIZE / 2, AUDIO_CMD_START)\<close>. No other step of
  the sequence calls \<^verbatim>\<open>AudioCmd\<close>.
\<close>

theorem playback_started_once:
  assumes "0 < AUDIO_TOTAL_BUF_SIZE cfg" and "unat (AUDIO_TOTAL_BUF_SIZE cfg) mod 4 = 0"
    and "is_reset e0" and "step cfg e0 s = Some (USBD_OK, s0)" and "pClassData s0 \<noteq> None"
    and "\<forall>e\<in>set es. \<not> is_reset e"
  shows "\<exists>ss. run cfg es s0 = Some ss \<and>
           length (filter (\<lambda>(s, e, s'). rising s s') (steps_of s0 es ss)) \<le> 1 \<and>
           (\<forall>(s, e, s') \<in> set (steps_of s0 es ss).
              if rising s s'
              then is_DataOut e \<and> half_full cfg s' \<and>
                   filter is_AudioCmd (new_calls s s') =
                     [Itf_AudioCmd 0 (AUDIO_TOTAL_BUF_SIZE cfg div 2) AUDIO_CMD_START]
              else filter is_AudioCmd (new_calls s s') = [])"
proof -
  have inv: "sess_inv cfg s0" using session_start [OF assms(1,3,4,5)] .
  from run_session [OF assms(1,2) inv assms(6)] obtain ss where
    rn: "run cfg es s0 = Some ss"
    and all: "\<forall>(s, e, s') \<in> set (steps_of s0 es ss). step_prop cfg s e s'"
    and le: "length (filter (\<lambda>(s, e, s'). rising s s') (steps_of s0 es ss)) \<le> 1"
    by blast
  have "\<forall>(s, e, s') \<in> set (steps_of s0 es ss).
              if rising s s'
              then is_DataOut e \<and> half_full cfg s' \<and>
                   filter is_AudioCmd (new_calls s s') =
                     [Itf_AudioCmd 0 (AUDIO_TOTAL_BUF_SIZE cfg div 2) AUDIO_CMD_START]
              else filter is_AudioCmd (new_calls s s') = []"
    using all by (auto simp: step_prop_def split: if_splits)
  then show ?thesis using rn le by blast
qed

lemma session_trace:
  "map_option (map (\<lambda>s. (map_option wr_ptr (pClassData s), is_playing s)))
     (run conf16 session_events session_begin) =
   Some [(Some 4, 0), (Some 4, 0), (Some 8, 1), (Some 8, 1), (Some 0, 1)]"
  by code_simp

theorem playback_started_once_witness:
  "is_reset (Ev_Setup (set_interface_req 1)) \<and>
   step conf16 (Ev_Setup (set_interface_req 1)) idle_state = Some (USBD_OK, session_begin) \<and>
   map_option (map is_playing) (run conf16 session_events session_begin) = Some [0, 0, 1, 1, 1] \<and>
   (\<exists>ss. run conf16 session_events session_begin = Some ss \<and>
      length (filter (\<lambda>(s, e, s'). rising s s') (steps_of session_begin session_events ss)) \<le> 1 \<and>
      (\<forall>(s, e, s') \<in> set (steps_of session_begin session_events ss).
              if rising s s'
              then is_DataOut e \<and> half_full conf16 s' \<and>
                   filter is_AudioCmd (new_calls s s') =
                     [Itf_AudioCmd 0 (AUDIO_TOTAL_BUF_SIZE conf16 div 2) AUDIO_CMD_START]
              else filter is_AudioCmd (new_calls s s') = []))"
proof -
  have a: "is_reset (Ev_Setup (set_interface_req 1))"
    by (simp add: set_interface_req_def is_set_interface_def req_defs)
  have b: "step conf16 (Ev_Setup (set_interface_req 1)) idle_state = Some (USBD_OK, session_begin)"
    by (simp add: session_begin_def USBD_AUDIO_Setup_def set_interface_def set_interface_req_def
        conf16_def example_defs req_defs Let_def)
  have c: "pClassData session_begin \<noteq> None"
    by (simp add: session_begin_def USBD_AUDIO_Setup_def set_interface_def set_interface_req_def
        set_interface_reset_def do_call_def conf16_def example_defs req_defs Let_def)
  have d: "\<forall>e\<in>set session_events. \<not> is_reset e" by (simp add: session_events_def)
  have e: "map_option (map is_playing) (run conf16 session_events session_begin) = Some [0, 0, 1, 1, 1]"
    by code_simp
  have T: "0 < AUDIO_TOTAL_BUF_SIZE conf16" "unat (AUDIO_TOTAL_BUF_SIZE conf16) mod 4 = 0"
    by (simp_all add: conf16_def conf48_def)
  note f = playback_started_once [OF T a b c d]
  show ?thesis by (rule conjI [OF a conjI [OF b conjI [OF e f]]])
qed

subsection \<open>The write offset across packets\<close>

lemma playback_start_wr:
  "\<exists>h'. pClassData (playback_start cfg h s) = Some h' \<and> wr_ptr h' = wr_ptr h"
  by (simp add: playback_start_def Let_def)

lemma dataout_wr_ok:
  assumes T: "0 < AUDIO_TOTAL_BUF_SIZE cfg" "unat (AUDIO_TOTAL_BUF_SIZE cfg) mod 4 = 0"
    and h: "pClassData s = Some h" "wr_ok cfg h"
  shows "\<exists>r s' h'. USBD_AUDIO_DataOut cfg epnum rx tmpbuf s = Some (r, s') \<and>
           pClassData s' = Some h' \<and> wr_ok cfg h'"
proof (cases "epnum = AUDIO_OUT_EP cfg \<and> all_ready s = 1")
  case False
  then have "USBD_AUDIO_DataOut cfg epnum rx tmpbuf s = Some (USBD_OK, s)"
    using h(1) by (auto simp: USBD_AUDIO_DataOut_def)
  then show ?thesis using h by blast
next
  case True
  let ?n = "unat ((ucast (if rx > AUDIO_OUT_PACKET cfg then 0 else rx) :: 32 word) div 4)"
  obtain h1 where h1: "copy_samples cfg tmpbuf ?n 0 h = Some h1" "wr_ok cfg h1"
    using copy_samples_ok [OF T h(2)] by blast
  obtain h' where h': "pClassData (playback_start cfg h1 s) = Some h'" "wr_ptr h' = wr_ptr h1"
    using playback_start_wr by blast
  let ?s' = "do_call (LL_PrepareReceive (AUDIO_OUT_EP cfg) Staging (AUDIO_OUT_PACKET cfg))
               (playback_start cfg h1 s)"
  have "USBD_AUDIO_DataOut cfg epnum rx tmpbuf s = Some (USBD_OK, ?s')"
    using True h(1) h1(1) by (simp add: USBD_AUDIO_DataOut_def Let_def)
  moreover have "pClassData ?s' = Some h'" using h'(1) by simp
  moreover have "wr_ok cfg h'" using h1(2) h'(2) by (simp add: wr_ok_def)
  ultimately show ?thesis by blast
qed

text \<open>
  C7. On a ring whose size is a positive multiple of 4, every sequence of
  \<^verbatim>\<open>USBD_AUDIO_DataOut\<close> events from a state with \<^verbatim>\<open>wr_ptr == 0\<close> returns at each event,
  and after each event \<^verbatim>\<open>wr_ptr\<close> is a multiple of 4 and less than
  \<^verbatim>\<open>AUDIO_TOTAL_BUF_SIZE\<close>. This holds for received sizes of any value: the loop copies
  whole frames, \<^verbatim>\<open>PacketSize / 4\<close> of them, and sizes above \<^verbatim>\<open>AUDIO_OUT_PACKET\<close> are
  dropped.
\<close>

theorem wr_ptr_aligned_in_ring:
  assumes "0 < AUDIO_TOTAL_BUF_SIZE cfg" and "unat (AUDIO_TOTAL_BUF_SIZE cfg) mod 4 = 0"
    and "pClassData s0 = Some h0" and "wr_ptr h0 = 0"
    and "\<forall>e\<in>set es. is_DataOut e"
  shows "\<exists>ss. run cfg es s0 = Some ss \<and> length ss = length es \<and>
           (\<forall>s\<in>set ss. \<exists>h. pClassData s = Some h \<and> unat (wr_ptr h) mod 4 = 0 \<and>
                              unat (wr_ptr h) < unat (AUDIO_TOTAL_BUF_SIZE cfg))"
proof -
  have gen: "\<And>s h. pClassData s = Some h \<Longrightarrow> wr_ok cfg h \<Longrightarrow> \<forall>e\<in>set es. is_DataOut e \<Longrightarrow>
      \<exists>ss. run cfg es s = Some ss \<and> length ss = length es \<and>
           (\<forall>s'\<in>set ss. \<exists>h'. pClassData s' = Some h' \<and> wr_ok cfg h')"
  proof (induction es)
    case Nil
    then show ?case by simp
  next
    case (Cons e es)
    from Cons.prems(3) obtain epnum rx tmpbuf where e: "e = Ev_DataOut epnum rx tmpbuf"
      by (cases e) simp_all
    from dataout_wr_ok [OF assms(1,2) Cons.prems(1,2), of epnum rx tmpbuf]
    obtain r s1 h1 where s1: "USBD_AUDIO_DataOut cfg epnum rx tmpbuf s = Some (r, s1)"
        "pClassData s1 = Some h1" "wr_ok cfg h1"
      by blast
    from Cons.IH [OF s1(2,3)] Cons.prems(3) obtain ss1 where
      "run cfg es s1 = Some ss1" "length ss1 = length es"
      "\<forall>s'\<in>set ss1. \<exists>h'. pClassData s' = Some h' \<and> wr_ok cfg h'"
      by auto
    then show ?case using e s1 by simp
  qed
  have "wr_ok cfg h0" using assms(1,4) by (simp add: wr_ok_def word_less_nat_alt)
  from gen [OF assms(3) this assms(5)] show ?thesis by (simp add: wr_ok_def)
qed

theorem wr_ptr_aligned_in_ring_witness:
  "map_option (map (\<lambda>s. map_option wr_ptr (pClassData s))) (run conf16 ingest_events armed_state) =
     Some [Some 4, Some 4, Some 12] \<and>
   (\<exists>ss. run conf16 ingest_events armed_state = Some ss \<and> length ss = length ingest_events \<and>
      (\<forall>s\<in>set ss. \<exists>h. pClassData s = Some h \<and> unat (wr_ptr h) mod 4 = 0 \<and>
                         unat (wr_ptr h) < unat (AUDIO_TOTAL_BUF_SIZE conf16)))"
proof -
  have T: "0 < AUDIO_TOTAL_BUF_SIZE conf16" "unat (AUDIO_TOTAL_BUF_SIZE conf16) mod 4 = 0"
    by (simp_all add: conf16_def conf48_def)
  have h: "pClassData armed_state = Some (idle_handle\<lparr>alt_setting := 1\<rparr>)"
      "wr_ptr (idle_handle\<lparr>alt_setting := 1\<rparr>) = 0"
    by (simp_all add: armed_state_def example_defs)
  have d: "\<forall>e\<in>set ingest_events. is_DataOut e"
    by (simp add: ingest_events_def)
  have e: "map_option (map (\<lambda>s. map_option wr_ptr (pClassData s)))
             (run conf16 ingest_events armed_state) = Some [Some 4, Some 4, Some 12]"
    by code_simp
  note f = wr_ptr_aligned_in_ring [OF T h d]
  show ?thesis by (rule conjI [OF e f])
qed

end
